theory Spec2Isabelle
  imports Main "HOL-Library.AList"
begin

section \<open>JavaScript values\<close>

text \<open>
  A plain JavaScript object with string keys is an association list in insertion order:
  \<open>obj[k]\<close> is \<open>map_of obj k\<close> (\<open>None\<close> for \<open>undefined\<close>), the assignment
  \<open>obj[k] = v\<close> is \<open>AList.update k v obj\<close> (an existing key keeps its place, a new
  key goes to the end), \<open>Object.keys(obj)\<close> is \<open>map fst obj\<close> and a \<open>for .. in\<close>
  loop visits the entries from left to right. A value that may be \<open>null\<close> is an
  \<open>option\<close>. Strings are ASCII.
\<close>

type_synonym 'v js_object = "(string \<times> 'v) list"

text \<open>Truthiness of a string that may be \<open>null\<close> or \<open>undefined\<close>: the empty string is falsy.\<close>

definition truthy :: "string option \<Rightarrow> bool" where
  "truthy v = (case v of None \<Rightarrow> False | Some s \<Rightarrow> s \<noteq> [])"

text \<open>A value in a template literal: \<open>null\<close> prints as the text \<open>null\<close>.\<close>

definition template :: "string option \<Rightarrow> string" where
  "template v = (case v of None \<Rightarrow> ''null'' | Some s \<Rightarrow> s)"

text \<open>
  Reading a property whose value may be \<open>null\<close>: an absent key (\<open>undefined\<close>) and
  \<open>null\<close> are both \<open>None\<close>; the program only tests such values for truthiness.
\<close>

definition lookup_nullable :: "('v option) js_object \<Rightarrow> string \<Rightarrow> 'v option" where
  "lookup_nullable obj k = (case map_of obj k of None \<Rightarrow> None | Some v \<Rightarrow> v)"

section \<open>The semver package\<close>

text \<open>
  The semver package is an external dependency. The program uses \<open>semver.valid\<close>,
  \<open>semver.coerce\<close>, \<open>semver.eq\<close>, \<open>semver.major\<close>, \<open>semver.minor\<close> and
  \<open>semver.patch\<close>. A parsed version is the record \<open>SemVer\<close>; the functions of the
  program take the parser (\<open>valid\<close> for \<open>semver.valid\<close>, \<open>coerce\<close> for
  \<open>semver.coerce\<close>) as a parameter, \<open>None\<close> standing for \<open>null\<close>. A coerced
  version has no prerelease part, so \<open>semver.eq\<close> on coerced versions is equality of
  the records.
\<close>

record SemVer =
  major :: nat
  minor :: nat
  patch :: nat

text \<open>
  An instance of the parser for the plain form \<open>MAJOR.MINOR.PATCH\<close>, used to run the
  program on concrete inputs: numeric identifiers are digits without a leading zero.
  Prefixes, prerelease tags and build metadata, which the package also accepts, are not
  covered by this instance.
\<close>

definition is_digit :: "char \<Rightarrow> bool" where
  "is_digit c = (c \<in> set ''0123456789'')"

definition digits_to_nat :: "string \<Rightarrow> nat" where
  "digits_to_nat s = foldl (\<lambda>n c. 10 * n + (of_char c - 48)) 0 s"

fun split_on :: "char \<Rightarrow> string \<Rightarrow> string list" where
  "split_on d [] = [[]]"
| "split_on d (c # cs) =
     (if c = d then [] # split_on d cs
      else (case split_on d cs of [] \<Rightarrow> [[c]] | p # ps \<Rightarrow> (c # p) # ps))"

definition numeric_identifier :: "string \<Rightarrow> bool" where
  "numeric_identifier s = (s \<noteq> [] \<and> list_all is_digit s \<and> (hd s = CHR ''0'' \<longrightarrow> length s = 1))"

definition semver_valid :: "string \<Rightarrow> SemVer option" where
  "semver_valid s =
     (case split_on CHR ''.'' s of
        [a, b, c] \<Rightarrow>
          if numeric_identifier a \<and> numeric_identifier b \<and> numeric_identifier c
          then Some \<lparr>major = digits_to_nat a, minor = digits_to_nat b, patch = digits_to_nat c\<rparr>
          else None
      | _ \<Rightarrow> None)"

text \<open>
  An instance of \<open>semver.coerce\<close> for strings of the forms \<open>N\<close>, \<open>N.N\<close> and
  \<open>N.N.N\<close>: missing components are zero.
\<close>

definition semver_coerce :: "string \<Rightarrow> SemVer option" where
  "semver_coerce s =
     (case split_on CHR ''.'' s of
        [a] \<Rightarrow> if a \<noteq> [] \<and> list_all is_digit a
               then Some \<lparr>major = digits_to_nat a, minor = 0, patch = 0\<rparr> else None
      | [a, b] \<Rightarrow> if a \<noteq> [] \<and> b \<noteq> [] \<and> list_all is_digit (a @ b)
               then Some \<lparr>major = digits_to_nat a, minor = digits_to_nat b, patch = 0\<rparr> else None
      | [a, b, c] \<Rightarrow> if a \<noteq> [] \<and> b \<noteq> [] \<and> c \<noteq> [] \<and> list_all is_digit (a @ b @ c)
               then Some \<lparr>major = digits_to_nat a, minor = digits_to_nat b, patch = digits_to_nat c\<rparr>
               else None
      | _ \<Rightarrow> None)"

section \<open>comparator.js\<close>

record VersionComparison =
  updateType :: string
  canAutoUpdate :: bool

record ComparisonResult = VersionComparison +
  installed :: string
  latest :: "string option"

text \<open>\<open>getUpdateType(installed, latest)\<close>.\<close>

definition getUpdateType :: "(string \<Rightarrow> SemVer option) \<Rightarrow> string \<Rightarrow> string \<Rightarrow> string" where
  "getUpdateType valid inst lat =
     (case (valid inst, valid lat) of
        (Some i, Some l) \<Rightarrow>
          if major l > major i then ''major''
          else if minor l > minor i then ''minor''
          else if patch l > patch i then ''patch''
          else ''current''
      | _ \<Rightarrow> ''unknown'')"

text \<open>
  The body of the loop of \<open>compareVersions\<close> for one package: \<open>lat\<close> is
  \<open>latestVersions[packageName]\<close>, \<open>None\<close> when it is \<open>undefined\<close> or \<open>null\<close>;
  the test \<open>!latest\<close> also takes the empty string.
\<close>

definition compareOne :: "(string \<Rightarrow> SemVer option) \<Rightarrow> string \<Rightarrow> string option \<Rightarrow> ComparisonResult" where
  "compareOne valid inst lat =
     (case lat of
        None \<Rightarrow> \<lparr>updateType = ''unknown'', canAutoUpdate = False, installed = inst, latest = None\<rparr>
      | Some l \<Rightarrow>
          if l = [] then
            \<lparr>updateType = ''unknown'', canAutoUpdate = False, installed = inst, latest = None\<rparr>
          else if inst = l then
            \<lparr>updateType = ''current'', canAutoUpdate = False, installed = inst, latest = Some l\<rparr>
          else
            (let ut = getUpdateType valid inst l in
             \<lparr>updateType = ut, canAutoUpdate = (ut = ''patch''), installed = inst, latest = Some l\<rparr>))"

fun compareVersions_loop ::
  "(string \<Rightarrow> SemVer option) \<Rightarrow> (string option) js_object \<Rightarrow> string js_object \<Rightarrow>
   ComparisonResult js_object \<Rightarrow> ComparisonResult js_object" where
  "compareVersions_loop valid latestVersions [] results = results"
| "compareVersions_loop valid latestVersions ((packageName, inst) # rest) results =
     compareVersions_loop valid latestVersions rest
       (AList.update packageName
          (compareOne valid inst (lookup_nullable latestVersions packageName)) results)"

definition compareVersions ::
  "(string \<Rightarrow> SemVer option) \<Rightarrow> string js_object \<Rightarrow> (string option) js_object \<Rightarrow>
   ComparisonResult js_object" where
  "compareVersions valid installedVersions latestVersions =
     compareVersions_loop valid latestVersions installedVersions []"

text \<open>\<open>getAutoUpdatePackages(comparisonResults)\<close>: name to latest version.\<close>

fun getAutoUpdatePackages_loop ::
  "ComparisonResult js_object \<Rightarrow> (string option) js_object \<Rightarrow> (string option) js_object" where
  "getAutoUpdatePackages_loop [] acc = acc"
| "getAutoUpdatePackages_loop ((packageName, r) # rest) acc =
     getAutoUpdatePackages_loop rest
       (if canAutoUpdate r then AList.update packageName (latest r) acc else acc)"

definition getAutoUpdatePackages :: "ComparisonResult js_object \<Rightarrow> (string option) js_object" where
  "getAutoUpdatePackages comparisonResults = getAutoUpdatePackages_loop comparisonResults []"

section \<open>go-analyzer.js: the version check\<close>

text \<open>\<open>checkGoVersionUpdate(currentVersion, latestVersion)\<close>.\<close>

definition checkGoVersionUpdate ::
  "(string \<Rightarrow> SemVer option) \<Rightarrow> string \<Rightarrow> string \<Rightarrow> VersionComparison" where
  "checkGoVersionUpdate coerce currentVersion latestVersion =
     (case (coerce currentVersion, coerce latestVersion) of
        (Some current, Some l) \<Rightarrow>
          if current = l then \<lparr>updateType = ''current'', canAutoUpdate = False\<rparr>
          else if major current < major l then \<lparr>updateType = ''major'', canAutoUpdate = False\<rparr>
          else if minor current < minor l then \<lparr>updateType = ''minor'', canAutoUpdate = False\<rparr>
          else if patch current < patch l then \<lparr>updateType = ''patch'', canAutoUpdate = True\<rparr>
          else \<lparr>updateType = ''unknown'', canAutoUpdate = False\<rparr>
      | _ \<Rightarrow> \<lparr>updateType = ''unknown'', canAutoUpdate = False\<rparr>)"

section \<open>The classification rule of the specification\<close>

text \<open>
  The rule as the specification words it: the classification is the first component,
  major then minor then patch, at which the two triples differ, and \<open>current\<close> when
  they are equal. \<open>not_older a b\<close> says that \<open>b\<close> is not older than \<open>a\<close>.
\<close>

definition spec_classification :: "SemVer \<Rightarrow> SemVer \<Rightarrow> string" where
  "spec_classification a b =
     (if major a \<noteq> major b then ''major''
      else if minor a \<noteq> minor b then ''minor''
      else if patch a \<noteq> patch b then ''patch''
      else ''current'')"

definition not_older :: "SemVer \<Rightarrow> SemVer \<Rightarrow> bool" where
  "not_older a b =
     (major a < major b \<or>
      (major a = major b \<and> (minor a < minor b \<or> (minor a = minor b \<and> patch a \<le> patch b))))"

section \<open>analyzer.js\<close>

text \<open>
  A parsed \<open>package.json\<close>: the three dependency sections, each absent (\<open>None\<close>) or
  an object from package name to declared range. Objects that \<open>JSON.parse\<close> returns
  have distinct keys.
\<close>

record PackageJson =
  dependencies :: "string js_object option"
  devDependencies :: "string js_object option"
  optionalDependencies :: "string js_object option"

text \<open>
  A parsed \<open>package-lock.json\<close>: \<open>lock_dependencies\<close> is its \<open>dependencies\<close>
  property (the old format, keyed by package name) and \<open>packages\<close> the new format
  (keyed by \<open>node_modules/<name>\<close>). An entry has a \<open>version\<close>, possibly absent.
\<close>

record LockEntry =
  version :: "string option"

record PackageLock =
  lock_dependencies :: "LockEntry js_object option"
  packages :: "LockEntry js_object option"

text \<open>\<open>Object.assign(target, source)\<close>.\<close>

definition object_assign :: "'v js_object \<Rightarrow> 'v js_object \<Rightarrow> 'v js_object" where
  "object_assign target source = foldl (\<lambda>acc (k, v). AList.update k v acc) target source"

definition extractDependencies :: "PackageJson \<Rightarrow> string js_object" where
  "extractDependencies packageJson =
     (let d0 = [];
          d1 = (case dependencies packageJson of None \<Rightarrow> d0 | Some s \<Rightarrow> object_assign d0 s);
          d2 = (case devDependencies packageJson of None \<Rightarrow> d1 | Some s \<Rightarrow> object_assign d1 s);
          d3 = (case optionalDependencies packageJson of None \<Rightarrow> d2 | Some s \<Rightarrow> object_assign d2 s)
      in d3)"

text \<open>\<open>declared.replace(/[\^~>=<]/g, '')\<close>.\<close>

definition strip_range :: "string \<Rightarrow> string" where
  "strip_range declared = filter (\<lambda>c. c \<notin> set ''^~>=<'') declared"

text \<open>
  \<open>getInstalledVersions(packageLock, dependencies)\<close>. Each loop runs over
  \<open>Object.keys(dependencies)\<close> and reads \<open>dependencies[name]\<close>, that is, over the
  entries of \<open>dependencies\<close>. A lock that has neither section falls through both
  branches and the function returns the empty object.
\<close>

definition pinned_version :: "LockEntry js_object \<Rightarrow> string \<Rightarrow> string option" where
  "pinned_version entries key =
     (case map_of entries key of
        None \<Rightarrow> None
      | Some pkgInfo \<Rightarrow> if truthy (version pkgInfo) then version pkgInfo else None)"

definition getInstalledVersions :: "PackageLock option \<Rightarrow> string js_object \<Rightarrow> string js_object" where
  "getInstalledVersions packageLock deps =
     (case packageLock of
        None \<Rightarrow>
          foldl (\<lambda>installedVersions (name, declared).
                   AList.update name (strip_range declared) installedVersions) [] deps
      | Some lock \<Rightarrow>
          (case lock_dependencies lock of
             Some lockDeps \<Rightarrow>
               foldl (\<lambda>installedVersions (name, declared).
                        AList.update name
                          (case pinned_version lockDeps name of
                             Some v \<Rightarrow> v
                           | None \<Rightarrow> strip_range declared) installedVersions) [] deps
           | None \<Rightarrow>
               (case packages lock of
                  Some pkgs \<Rightarrow>
                    foldl (\<lambda>installedVersions (name, declared).
                             AList.update name
                               (case pinned_version pkgs (''node_modules/'' @ name) of
                                  Some v \<Rightarrow> v
                                | None \<Rightarrow> strip_range declared) installedVersions) [] deps
                | None \<Rightarrow> [])))"

text \<open>
  The outcome of one promise under \<open>Promise.allSettled\<close>. \<open>fetchPackageInfo\<close> is the
  registry: it is fulfilled with \<open>response.data['dist-tags'].latest\<close> (\<open>None\<close> when
  that is \<open>undefined\<close>) or rejected with a message. The registry is a parameter.
\<close>

datatype 'a settled = Fulfilled 'a | Rejected string

type_synonym registry = "string \<Rightarrow> string option settled"

text \<open>The callback of \<open>results.forEach\<close>: the value stored for one settled lookup.\<close>

definition stored_version :: "string option settled \<Rightarrow> string option" where
  "stored_version result =
     (case result of
        Fulfilled v \<Rightarrow> if truthy v then v else None
      | Rejected reason \<Rightarrow> None)"

definition store_batch ::
  "(string option) js_object \<Rightarrow> string list \<Rightarrow> string option settled list \<Rightarrow> (string option) js_object" where
  "store_batch latestVersions batch results =
     foldl (\<lambda>acc (packageName, result). AList.update packageName (stored_version result) acc)
       latestVersions (zip batch results)"

text \<open>
  \<open>fetchLatestVersions(packageNames)\<close>: batches of ten, each settled as a whole before
  the next starts. The delay between batches has no effect on the result.
\<close>

function fetchLatestVersions_loop ::
  "registry \<Rightarrow> string list \<Rightarrow> nat \<Rightarrow> (string option) js_object \<Rightarrow> (string option) js_object" where
  "fetchLatestVersions_loop fetchPackageInfo packageNames i latestVersions =
     (if i < length packageNames then
        (let batch = take 10 (drop i packageNames);
             results = map fetchPackageInfo batch
         in fetchLatestVersions_loop fetchPackageInfo packageNames (i + 10)
              (store_batch latestVersions batch results))
      else latestVersions)"
  by pat_completeness auto
termination
  by (relation "measure (\<lambda>(f, packageNames, i, acc). length packageNames - i)") auto

definition fetchLatestVersions :: "registry \<Rightarrow> string list \<Rightarrow> (string option) js_object" where
  "fetchLatestVersions fetchPackageInfo packageNames =
     fetchLatestVersions_loop fetchPackageInfo packageNames 0 []"

section \<open>The files and the external commands\<close>

text \<open>
  What the program reads and writes: the \<open>package.json\<close> files by path, each either its
  parsed content or the message with which reading or \<open>JSON.parse\<close> throws; the
  \<open>package-lock.json\<close> files likewise; the \<open>go.mod\<close> files as text. A path with no
  entry does not exist. \<open>readonly\<close> lists the paths at which \<open>fs.writeFile\<close> throws.
  The registry and the outcomes of \<open>npm install\<close> and \<open>go mod tidy\<close> (by repository
  path, \<open>True\<close> for success) belong to the environment as well; these two commands are
  taken not to touch the files modelled here.
\<close>

record world =
  manifests :: "(string + PackageJson) js_object"
  locks :: "(string + PackageLock) js_object"
  gomods :: "string js_object"
  readonly :: "string list"
  npm_registry :: registry
  npm_install_ok :: "string \<Rightarrow> bool"
  go_mod_tidy_ok :: "string \<Rightarrow> bool"

text \<open>
  A repository as the scanner builds it: an npm repository has \<open>packageJsonPath\<close> and
  \<open>packageLockPath\<close> (\<open>null\<close> when there is no lock), a Go repository has
  \<open>goModPath\<close>. \<open>repo_type\<close> is the property \<open>type\<close>.
\<close>

record Repository =
  path :: string
  repo_type :: string
  packageJsonPath :: "string option"
  packageLockPath :: "string option"
  goModPath :: "string option"

definition readPackageJson :: "world \<Rightarrow> string option \<Rightarrow> string + PackageJson" where
  "readPackageJson w packageJsonPath' =
     (case packageJsonPath' of
        None \<Rightarrow> Inl ''Failed to read package.json at undefined: invalid path''
      | Some p \<Rightarrow>
          (case map_of (manifests w) p of
             None \<Rightarrow> Inl (''Failed to read package.json at '' @ p @ '': ENOENT'')
           | Some (Inl msg) \<Rightarrow> Inl (''Failed to read package.json at '' @ p @ '': '' @ msg)
           | Some (Inr packageJson) \<Rightarrow> Inr packageJson))"

text \<open>\<open>readPackageLock\<close> catches every failure and returns \<open>null\<close>.\<close>

definition readPackageLock :: "world \<Rightarrow> string option \<Rightarrow> PackageLock option" where
  "readPackageLock w packageLockPath' =
     (if \<not> truthy packageLockPath' then None
      else (case map_of (locks w) (template packageLockPath') of
              Some (Inr lock) \<Rightarrow> Some lock
            | _ \<Rightarrow> None))"

section \<open>updater.js\<close>

text \<open>
  An entry of \<open>updatedDependencies\<close>. \<open>from\<close> holds what reading the section gives at
  the moment the entry is built (\<open>None\<close> for \<open>undefined\<close>).
\<close>

record UpdatedDependency =
  type :: string
  "from" :: "string option"
  to :: string

text \<open>The template literal \<open>`^${newVersion}`\<close>.\<close>

definition caret :: "string option \<Rightarrow> string" where
  "caret newVersion = CHR ''^'' # template newVersion"

text \<open>
  One of the three loops of \<open>updatePackageJson\<close>, over the entries of
  \<open>packagesToUpdate\<close>, for the section \<open>sec\<close> named \<open>ty\<close>. In the source the section is
  assigned first and \<open>from\<close> is read from the section afterwards.
\<close>

fun update_section ::
  "string \<Rightarrow> (string option) js_object \<Rightarrow> string js_object \<Rightarrow> UpdatedDependency js_object \<Rightarrow>
   string js_object \<times> UpdatedDependency js_object" where
  "update_section ty [] sec updatedDeps = (sec, updatedDeps)"
| "update_section ty ((packageName, newVersion) # rest) sec updatedDeps =
     (if truthy (map_of sec packageName) then
        (let sec' = AList.update packageName (caret newVersion) sec
         in update_section ty rest sec'
              (AList.update packageName
                 \<lparr>type = ty, from = map_of sec' packageName, to = caret newVersion\<rparr>
                 updatedDeps))
      else update_section ty rest sec updatedDeps)"

definition update_optional_section ::
  "string \<Rightarrow> (string option) js_object \<Rightarrow> string js_object option \<Rightarrow> UpdatedDependency js_object \<Rightarrow>
   string js_object option \<times> UpdatedDependency js_object" where
  "update_optional_section ty packagesToUpdate sec updatedDeps =
     (case sec of
        None \<Rightarrow> (None, updatedDeps)
      | Some s \<Rightarrow> (case update_section ty packagesToUpdate s updatedDeps of
                    (s', u) \<Rightarrow> (Some s', u)))"

text \<open>The part of \<open>updatePackageJson\<close> between \<open>JSON.parse\<close> and \<open>fs.writeFile\<close>.\<close>

definition rewrite_sections ::
  "PackageJson \<Rightarrow> (string option) js_object \<Rightarrow> PackageJson \<times> UpdatedDependency js_object" where
  "rewrite_sections packageJson packagesToUpdate =
     (case update_optional_section ''dependencies'' packagesToUpdate
             (dependencies packageJson) [] of
        (d, u1) \<Rightarrow>
     (case update_optional_section ''devDependencies'' packagesToUpdate
             (devDependencies packageJson) u1 of
        (dd, u2) \<Rightarrow>
     (case update_optional_section ''optionalDependencies'' packagesToUpdate
             (optionalDependencies packageJson) u2 of
        (od, u3) \<Rightarrow>
       (\<lparr>dependencies = d, devDependencies = dd, optionalDependencies = od\<rparr>, u3))))"

text \<open>
  \<open>updatePackageJson(packageJsonPath, packagesToUpdate)\<close>: \<open>Inl\<close> is the error it throws,
  \<open>Inr\<close> the returned \<open>{packageJson, updatedDependencies}\<close> with the files after the
  write.
\<close>

definition updatePackageJson ::
  "world \<Rightarrow> string option \<Rightarrow> (string option) js_object \<Rightarrow>
   string + ((PackageJson \<times> UpdatedDependency js_object) \<times> world)" where
  "updatePackageJson w packageJsonPath' packagesToUpdate =
     (case packageJsonPath' of
        None \<Rightarrow> Inl ''Failed to update package.json at undefined: invalid path''
      | Some p \<Rightarrow>
          (case map_of (manifests w) p of
             None \<Rightarrow> Inl (''Failed to update package.json at '' @ p @ '': ENOENT'')
           | Some (Inl msg) \<Rightarrow> Inl (''Failed to update package.json at '' @ p @ '': '' @ msg)
           | Some (Inr packageJson) \<Rightarrow>
               (case rewrite_sections packageJson packagesToUpdate of
                  (packageJson', updatedDeps) \<Rightarrow>
                    if p \<in> set (readonly w)
                    then Inl (''Failed to update package.json at '' @ p @ '': EACCES'')
                    else Inr ((packageJson', updatedDeps),
                              w\<lparr>manifests := AList.update p (Inr packageJson') (manifests w)\<rparr>))))"

text \<open>\<open>updatePackageLock(repoPath)\<close> runs \<open>npm install\<close> and catches its failure.\<close>

definition updatePackageLock :: "world \<Rightarrow> string \<Rightarrow> bool" where
  "updatePackageLock w repoPath = npm_install_ok w repoPath"

text \<open>
  The result of an update, of either ecosystem: a property that the result object does
  not have is \<open>None\<close>.
\<close>

record UpdateResults =
  repository :: "string option"
  updated :: bool
  message :: "string option"
  error :: "string option"
  packageLockUpdated :: "bool option"
  updatedDependencies :: "UpdatedDependency js_object option"
  goModUpdated :: "bool option"
  goModTidied :: "bool option"

definition updatePackages ::
  "world \<Rightarrow> Repository \<Rightarrow> (string option) js_object \<Rightarrow> UpdateResults \<times> world" where
  "updatePackages w repo packagesToUpdate =
     (if length (map fst packagesToUpdate) = 0 then
        (\<lparr>repository = Some (path repo), updated = False,
          message = Some ''No packages to update'', error = None,
          packageLockUpdated = None, updatedDependencies = Some [],
          goModUpdated = None, goModTidied = None\<rparr>, w)
      else
        (case updatePackageJson w (packageJsonPath repo) packagesToUpdate of
           Inl msg \<Rightarrow>
             (\<lparr>repository = Some (path repo), updated = False,
               message = None, error = Some msg,
               packageLockUpdated = None, updatedDependencies = Some [],
               goModUpdated = None, goModTidied = None\<rparr>, w)
         | Inr ((packageJson', updatedDeps), w') \<Rightarrow>
             (\<lparr>repository = Some (path repo), updated = True,
               message = None, error = None,
               packageLockUpdated =
                 Some (if truthy (packageLockPath repo) then updatePackageLock w' (path repo)
                       else False),
               updatedDependencies = Some updatedDeps,
               goModUpdated = None, goModTidied = None\<rparr>, w')))"

text \<open>
  The step of the loop of \<open>update_section\<close> on the section alone: the entry is
  rewritten when its current value is truthy.
\<close>


definition rewrite_entry :: "string \<Rightarrow> string option \<Rightarrow> string js_object \<Rightarrow> string js_object" where
  "rewrite_entry k v sec = (if truthy (map_of sec k) then AList.update k (caret v) sec else sec)"

section \<open>Regular expressions\<close>

text \<open>
  The regular expressions of the program are built from literals, greedy repetitions
  \<open>c+\<close> of a character class, sequences, the greedy option \<open>(?:r)?\<close> and alternatives.
  \<open>rx_matches r s\<close> lists the ways in which \<open>r\<close> matches a prefix of \<open>s\<close>, as
  (matched text, rest), in the order in which a backtracking matcher tries them: a
  repetition longest first, an option present first, an alternative left first.
\<close>

datatype rx = Lit string | Plus "char \<Rightarrow> bool" | Seq rx rx | Opt rx | Alt rx rx

fun rx_matches :: "rx \<Rightarrow> string \<Rightarrow> (string \<times> string) list" where
  "rx_matches (Lit l) s = (if take (length l) s = l then [(l, drop (length l) s)] else [])"
| "rx_matches (Plus p) s =
     map (\<lambda>n. (take n s, drop n s)) (rev [1 ..< Suc (length (takeWhile p s))])"
| "rx_matches (Seq a b) s =
     concat (map (\<lambda>(m1, r1). map (\<lambda>(m2, r2). (m1 @ m2, r2)) (rx_matches b r1)) (rx_matches a s))"
| "rx_matches (Opt a) s = rx_matches a s @ [([], s)]"
| "rx_matches (Alt a b) s = rx_matches a s @ rx_matches b s"

fun first_some :: "('a \<Rightarrow> 'b option) \<Rightarrow> 'a list \<Rightarrow> 'b option" where
  "first_some f [] = None"
| "first_some f (x # xs) = (case f x of Some y \<Rightarrow> Some y | None \<Rightarrow> first_some f xs)"

text \<open>
  A regular expression is a list of parts in sequence, so that a capture group is one of
  the parts. \<open>match_parts\<close> matches the parts at the start of \<open>s\<close> and returns the text
  of each part and the rest, for the first way that succeeds.
\<close>

fun match_parts :: "rx list \<Rightarrow> string \<Rightarrow> (string list \<times> string) option" where
  "match_parts [] s = Some ([], s)"
| "match_parts (r # rs) s =
     first_some (\<lambda>(m, rest). case match_parts rs rest of
                                None \<Rightarrow> None
                              | Some (ms, rest') \<Rightarrow> Some (m # ms, rest'))
       (rx_matches r s)"

text \<open>\<open>s.match(re)\<close> without the \<open>g\<close> flag: the leftmost match, \<open>None\<close> for \<open>null\<close>.\<close>

fun rx_search :: "rx list \<Rightarrow> string \<Rightarrow> string list option" where
  "rx_search parts [] = map_option fst (match_parts parts [])"
| "rx_search parts (c # cs) =
     (case match_parts parts (c # cs) of
        Some (ms, rest) \<Rightarrow> Some ms
      | None \<Rightarrow> rx_search parts cs)"

text \<open>
  All matches of a \<open>g\<close> regular expression from left to right, each search starting
  where the previous match ended (a \<open>while\<close> loop over \<open>re.exec\<close>, or \<open>s.match(re)\<close>).
  The first argument counts the characters of the last match still to be passed. None
  of the expressions of the program matches the empty string.
\<close>

fun rx_all :: "nat \<Rightarrow> rx list \<Rightarrow> string \<Rightarrow> string list list" where
  "rx_all skip parts [] = []"
| "rx_all (Suc k) parts (c # cs) = rx_all k parts cs"
| "rx_all 0 parts (c # cs) =
     (case match_parts parts (c # cs) of
        Some (ms, rest) \<Rightarrow> ms # rx_all (length (concat ms) - 1) parts cs
      | None \<Rightarrow> rx_all 0 parts cs)"

text \<open>\<open>s.replace(re, '')\<close> with the \<open>g\<close> flag: every match is removed.\<close>

fun rx_remove_all :: "nat \<Rightarrow> rx list \<Rightarrow> string \<Rightarrow> string" where
  "rx_remove_all skip parts [] = []"
| "rx_remove_all (Suc k) parts (c # cs) = rx_remove_all k parts cs"
| "rx_remove_all 0 parts (c # cs) =
     (case match_parts parts (c # cs) of
        Some (ms, rest) \<Rightarrow> rx_remove_all (length (concat ms) - 1) parts cs
      | None \<Rightarrow> c # rx_remove_all 0 parts cs)"

text \<open>
  \<open>s.replace(re, replacement)\<close> without the \<open>g\<close> flag: the leftmost match is replaced
  (the replacement is taken literally: it holds no \<open>$\<close>).
\<close>

fun rx_replace_first :: "rx list \<Rightarrow> string \<Rightarrow> string \<Rightarrow> string" where
  "rx_replace_first parts replacement [] =
     (case match_parts parts [] of Some (ms, rest) \<Rightarrow> replacement @ rest | None \<Rightarrow> [])"
| "rx_replace_first parts replacement (c # cs) =
     (case match_parts parts (c # cs) of
        Some (ms, rest) \<Rightarrow> replacement @ rest
      | None \<Rightarrow> c # rx_replace_first parts replacement cs)"

text \<open>The character classes: \<open>\s\<close>, \<open>[^\s]\<close>, \<open>\d\<close>, \<open>.\<close> and \<open>[^)]\<close>.\<close>

definition is_space :: "char \<Rightarrow> bool" where
  "is_space c = (c \<in> set [CHR '' '', CHR 0x09, CHR 0x0A, CHR 0x0B, CHR 0x0C, CHR 0x0D])"

definition non_space :: "char \<Rightarrow> bool" where
  "non_space c = (\<not> is_space c)"

definition any_char :: "char \<Rightarrow> bool" where
  "any_char c = (c \<notin> set [CHR 0x0A, CHR 0x0D])"

definition not_rparen :: "char \<Rightarrow> bool" where
  "not_rparen c = (c \<noteq> CHR '')'')"

text \<open>\<open>s.trim()\<close>.\<close>

definition trim :: "string \<Rightarrow> string" where
  "trim s = rev (dropWhile is_space (rev (dropWhile is_space s)))"

section \<open>go-analyzer.js: reading and writing go.mod\<close>

record GoMod =
  module :: string
  go :: string
  requires :: "string js_object"

text \<open>\<open>/module\s+(.+)/\<close>, \<open>/go\s+(\d+\.\d+(?:\.\d+)?)/\<close>,
  \<open>/require\s+([^\s]+)\s+([^\s]+)/g\<close>, \<open>/require\s+\(([^)]+)\)/g\<close>,
  \<open>/require\s+\(|\)/g\<close> and \<open>/([^\s]+)\s+([^\s]+)/\<close>.\<close>

definition moduleRegex :: "rx list" where
  "moduleRegex = [Lit ''module'', Plus is_space, Plus any_char]"

definition goRegex :: "rx list" where
  "goRegex = [Lit ''go'', Plus is_space,
              Seq (Plus is_digit) (Seq (Lit ''.'') (Seq (Plus is_digit)
                (Opt (Seq (Lit ''.'') (Plus is_digit)))))]"

definition requireRegex :: "rx list" where
  "requireRegex = [Lit ''require'', Plus is_space, Plus non_space, Plus is_space, Plus non_space]"

definition requireBlockRegex :: "rx list" where
  "requireBlockRegex = [Lit ''require'', Plus is_space, Lit ''('', Plus not_rparen, Lit '')'']"

definition blockDelimiterRegex :: "rx list" where
  "blockDelimiterRegex = [Alt (Seq (Lit ''require'') (Seq (Plus is_space) (Lit ''(''))) (Lit '')'')]"

definition lineRegex :: "rx list" where
  "lineRegex = [Plus non_space, Plus is_space, Plus non_space]"

text \<open>\<open>version.replace(/^v/, '')\<close>.\<close>

definition strip_v :: "string \<Rightarrow> string" where
  "strip_v s = (case s of [] \<Rightarrow> [] | c # cs \<Rightarrow> if c = CHR ''v'' then cs else s)"

text \<open>The loop over \<open>requireRegex.exec(content)\<close>.\<close>

definition single_line_requires :: "string \<Rightarrow> string js_object \<Rightarrow> string js_object" where
  "single_line_requires content reqs =
     foldl (\<lambda>acc ms. case ms of
                        [kw, sp1, g1, sp2, g2] \<Rightarrow> AList.update (trim g1) (strip_v (trim g2)) acc
                      | _ \<Rightarrow> acc)
       reqs (rx_all 0 requireRegex content)"

text \<open>The loop over the lines of one block.\<close>

definition block_line_requires :: "string \<Rightarrow> string js_object \<Rightarrow> string js_object" where
  "block_line_requires blockMatch reqs =
     foldl (\<lambda>acc line. case rx_search lineRegex (trim line) of
                          Some [g1, sp, g2] \<Rightarrow> AList.update (trim g1) (strip_v (trim g2)) acc
                        | _ \<Rightarrow> acc)
       reqs (split_on CHR 0x0A (rx_remove_all 0 blockDelimiterRegex blockMatch))"

definition parseGoMod :: "string \<Rightarrow> GoMod" where
  "parseGoMod content =
     \<lparr>module = (case rx_search moduleRegex content of
                  Some [kw, sp, g1] \<Rightarrow> trim g1 | _ \<Rightarrow> []),
      go = (case rx_search goRegex content of
              Some [kw, sp, g1] \<Rightarrow> trim g1 | _ \<Rightarrow> []),
      requires =
        foldl (\<lambda>acc ms. block_line_requires (concat ms) acc)
          (single_line_requires content [])
          (rx_all 0 requireBlockRegex content)\<rparr>"

text \<open>\<open>readGoMod(goModPath)\<close>: \<open>Inl\<close> is the error it throws.\<close>

definition readGoMod :: "world \<Rightarrow> string option \<Rightarrow> string + GoMod" where
  "readGoMod w goModPath' =
     (case goModPath' of
        None \<Rightarrow> Inl ''Failed to read go.mod file: invalid path''
      | Some p \<Rightarrow>
          (case map_of (gomods w) p of
             None \<Rightarrow> Inl ''Failed to read go.mod file: ENOENT''
           | Some content \<Rightarrow> Inr (parseGoMod content)))"

text \<open>\<open>getLatestGoVersion()\<close>.\<close>

definition getLatestGoVersion :: string where
  "getLatestGoVersion = ''1.22.0''"

text \<open>
  \<open>goAnalyzer.updateGoVersion(goModPath, newVersion)\<close>: \<open>Inl\<close> is the error it throws,
  \<open>Inr\<close> the files after the write (it then returns \<open>true\<close>).
\<close>

definition goAnalyzer_updateGoVersion :: "world \<Rightarrow> string option \<Rightarrow> string \<Rightarrow> string + world" where
  "goAnalyzer_updateGoVersion w goModPath' newVersion =
     (case goModPath' of
        None \<Rightarrow> Inl ''Failed to update Go version: invalid path''
      | Some p \<Rightarrow>
          (case map_of (gomods w) p of
             None \<Rightarrow> Inl ''Failed to update Go version: ENOENT''
           | Some content \<Rightarrow>
               if p \<in> set (readonly w) then Inl ''Failed to update Go version: EACCES''
               else Inr (w\<lparr>gomods :=
                            AList.update p (rx_replace_first goRegex (''go '' @ newVersion) content)
                              (gomods w)\<rparr>)))"

section \<open>go-updater.js\<close>

text \<open>
  \<open>goUpdater.updateGoVersion(repository, newVersion)\<close>. A failure of \<open>go mod tidy\<close> is
  caught and leaves \<open>goModTidied\<close> false.
\<close>

definition goUpdater_updateGoVersion :: "world \<Rightarrow> Repository \<Rightarrow> string \<Rightarrow> UpdateResults \<times> world" where
  "goUpdater_updateGoVersion w repo newVersion =
     (case goAnalyzer_updateGoVersion w (goModPath repo) newVersion of
        Inl msg \<Rightarrow>
          (\<lparr>repository = None, updated = False, message = None, error = Some msg,
            packageLockUpdated = None, updatedDependencies = None,
            goModUpdated = Some False, goModTidied = Some False\<rparr>, w)
      | Inr w' \<Rightarrow>
          (\<lparr>repository = None, updated = True, message = None, error = None,
            packageLockUpdated = None, updatedDependencies = None,
            goModUpdated = Some True, goModTidied = Some (go_mod_tidy_ok w' (path repo))\<rparr>, w'))"

section \<open>reporter.js\<close>

text \<open>
  The entries of the buckets: \<open>{from, to, updateType}\<close> for the auto-updated and
  manual buckets and \<open>{version}\<close> for the current bucket.
\<close>

record PackageUpdate =
  pkg_from :: string
  pkg_to :: "string option"
  pkg_updateType :: string

record CurrentPackage =
  pkg_version :: string

text \<open>The \<open>updateResults\<close> property of a report: the npm pair or the Go pair.\<close>

record ReportedUpdate =
  reported_packageLockUpdated :: "bool option"
  reported_updatedDependencies :: "UpdatedDependency js_object option"
  reported_goModUpdated :: "bool option"
  reported_goModTidied :: "bool option"

record RepoReport =
  report_path :: string
  report_name :: string
  report_type :: string
  packageCount :: nat
  autoUpdateCount :: nat
  manualUpdateCount :: nat
  currentCount :: nat
  autoUpdated :: bool
  autoUpdatePackages :: "PackageUpdate js_object"
  manualUpdatePackages :: "PackageUpdate js_object"
  currentPackages :: "CurrentPackage js_object"
  updateResults :: "ReportedUpdate option"

text \<open>\<open>path.basename(p)\<close> for paths with \<open>/\<close> as separator.\<close>

definition basename :: "string \<Rightarrow> string" where
  "basename p =
     rev (takeWhile (\<lambda>c. c \<noteq> CHR ''/'') (dropWhile (\<lambda>c. c = CHR ''/'') (rev p)))"

text \<open>
  The loop of \<open>generateRepositoryReport\<close> that sorts the packages into the three
  buckets (auto-updated, manual, current).
\<close>

fun categorize ::
  "ComparisonResult js_object \<Rightarrow>
   PackageUpdate js_object \<times> PackageUpdate js_object \<times> CurrentPackage js_object \<Rightarrow>
   PackageUpdate js_object \<times> PackageUpdate js_object \<times> CurrentPackage js_object" where
  "categorize [] buckets = buckets"
| "categorize ((packageName, result) # rest) (autoPkgs, manualPkgs, currentPkgs) =
     categorize rest
       (if updateType result = ''current'' then
          (autoPkgs, manualPkgs,
           AList.update packageName \<lparr>pkg_version = installed result\<rparr> currentPkgs)
        else if canAutoUpdate result then
          (AList.update packageName
             \<lparr>pkg_from = installed result, pkg_to = latest result,
              pkg_updateType = updateType result\<rparr> autoPkgs,
           manualPkgs, currentPkgs)
        else if updateType result = ''minor'' \<or> updateType result = ''major'' then
          (autoPkgs,
           AList.update packageName
             \<lparr>pkg_from = installed result, pkg_to = latest result,
              pkg_updateType = updateType result\<rparr> manualPkgs,
           currentPkgs)
        else (autoPkgs, manualPkgs, currentPkgs))"

definition generateRepositoryReport ::
  "Repository \<Rightarrow> ComparisonResult js_object \<Rightarrow> UpdateResults option \<Rightarrow> RepoReport" where
  "generateRepositoryReport repo comparisonResults updateResults' =
     (case categorize comparisonResults ([], [], []) of
        (autoPkgs, manualPkgs, currentPkgs) \<Rightarrow>
          \<lparr>report_path = path repo,
           report_name = basename (path repo),
           report_type = (if repo_type repo = [] then ''npm'' else repo_type repo),
           packageCount = length (map fst comparisonResults),
           autoUpdateCount = length (map fst autoPkgs),
           manualUpdateCount = length (map fst manualPkgs),
           currentCount = length (map fst currentPkgs),
           autoUpdated = (case updateResults' of None \<Rightarrow> False | Some u \<Rightarrow> updated u),
           autoUpdatePackages = autoPkgs,
           manualUpdatePackages = manualPkgs,
           currentPackages = currentPkgs,
           updateResults =
             (case updateResults' of
                None \<Rightarrow> None
              | Some u \<Rightarrow>
                  if updated u then
                    (if repo_type repo = ''npm'' then
                       Some \<lparr>reported_packageLockUpdated = packageLockUpdated u,
                             reported_updatedDependencies = updatedDependencies u,
                             reported_goModUpdated = None, reported_goModTidied = None\<rparr>
                     else if repo_type repo = ''go'' then
                       Some \<lparr>reported_packageLockUpdated = None,
                             reported_updatedDependencies = None,
                             reported_goModUpdated = goModUpdated u,
                             reported_goModTidied = goModTidied u\<rparr>
                     else None)
                  else None)\<rparr>)"

text \<open>
  The tests of the loop of \<open>generateRepositoryReport\<close>, in the order of the
  \<open>if\<close>/\<open>else if\<close> chain: which bucket a comparison result goes to, and \<open>dropped\<close>
  for a result that goes to none.
\<close>

definition to_current :: "ComparisonResult \<Rightarrow> bool" where
  "to_current r = (updateType r = ''current'')"

definition to_auto :: "ComparisonResult \<Rightarrow> bool" where
  "to_auto r = (updateType r \<noteq> ''current'' \<and> canAutoUpdate r)"

definition to_manual :: "ComparisonResult \<Rightarrow> bool" where
  "to_manual r = (updateType r \<noteq> ''current'' \<and> \<not> canAutoUpdate r
                  \<and> (updateType r = ''minor'' \<or> updateType r = ''major''))"

definition dropped :: "ComparisonResult \<Rightarrow> bool" where
  "dropped r = (\<not> to_current r \<and> \<not> to_auto r \<and> \<not> to_manual r)"

definition package_update :: "ComparisonResult \<Rightarrow> PackageUpdate" where
  "package_update r =
     \<lparr>pkg_from = installed r, pkg_to = latest r, pkg_updateType = updateType r\<rparr>"

text \<open>
  An element of \<open>repositoryReports\<close>: a report, or the object
  \<open>{path, name, error}\<close> that \<open>main\<close> pushes when processing a repository throws.
\<close>

datatype report_entry =
    Report (report_of: RepoReport)
  | Failure (failure_path: string) (failure_name: string) (failure_error: string)

text \<open>
  Reading a count property of an element: \<open>None\<close> is \<open>undefined\<close>, which is what the
  object pushed for a failure gives.
\<close>

definition count_of :: "(RepoReport \<Rightarrow> nat) \<Rightarrow> report_entry \<Rightarrow> nat option" where
  "count_of field entry = (case entry of Report r \<Rightarrow> Some (field r) | Failure p n e \<Rightarrow> None)"

text \<open>
  A JavaScript number that holds a count, or \<open>NaN\<close>. \<open>js_add acc v\<close> is
  \<open>acc += v\<close>: adding \<open>undefined\<close> gives \<open>NaN\<close>, and \<open>NaN\<close> stays \<open>NaN\<close>.
\<close>

datatype js_number = Num nat | NaN

definition js_add :: "js_number \<Rightarrow> nat option \<Rightarrow> js_number" where
  "js_add acc v = (case (acc, v) of (Num a, Some b) \<Rightarrow> Num (a + b) | _ \<Rightarrow> NaN)"

record Summary =
  repositoryCount :: nat
  totalPackages :: js_number
  totalAutoUpdated :: js_number
  totalManualUpdateNeeded :: js_number
  totalCurrent :: js_number

record ConsolidatedReport =
  timestamp :: string
  summary :: Summary
  repositories :: "report_entry list"

text \<open>
  \<open>generateConsolidatedReport(repositoryReports)\<close>; \<open>now\<close> is
  \<open>new Date().toISOString()\<close>.
\<close>

definition generateConsolidatedReport :: "string \<Rightarrow> report_entry list \<Rightarrow> ConsolidatedReport" where
  "generateConsolidatedReport now repositoryReports =
     \<lparr>timestamp = now,
      summary =
        \<lparr>repositoryCount = length repositoryReports,
         totalPackages =
           foldl (\<lambda>acc r. js_add acc (count_of packageCount r)) (Num 0) repositoryReports,
         totalAutoUpdated =
           foldl (\<lambda>acc r. js_add acc (count_of autoUpdateCount r)) (Num 0) repositoryReports,
         totalManualUpdateNeeded =
           foldl (\<lambda>acc r. js_add acc (count_of manualUpdateCount r)) (Num 0) repositoryReports,
         totalCurrent =
           foldl (\<lambda>acc r. js_add acc (count_of currentCount r)) (Num 0) repositoryReports\<rparr>,
      repositories = repositoryReports\<rparr>"

section \<open>index.js\<close>

text \<open>
  \<open>processNpmRepository(repository, repositoryReports)\<close>: \<open>Inl\<close> is the error it throws
  (only reading \<open>package.json\<close> can throw), \<open>Inr\<close> the reports and the files afterwards.
  A repository without dependencies returns without pushing a report. The call of
  \<open>getManualUpdatePackages\<close> only feeds a log line and is left out.
\<close>

definition processNpmRepository ::
  "(string \<Rightarrow> SemVer option) \<Rightarrow> world \<Rightarrow> Repository \<Rightarrow> report_entry list \<Rightarrow>
   string + (report_entry list \<times> world)" where
  "processNpmRepository valid w repo repositoryReports =
     (case readPackageJson w (packageJsonPath repo) of
        Inl msg \<Rightarrow> Inl msg
      | Inr packageJson \<Rightarrow>
          (let packageLock = (if truthy (packageLockPath repo)
                              then readPackageLock w (packageLockPath repo) else None);
               deps = extractDependencies packageJson;
               packageNames = map fst deps
           in if length packageNames = 0 then Inr (repositoryReports, w)
              else
                (let installedVersions = getInstalledVersions packageLock deps;
                     latestVersions = fetchLatestVersions (npm_registry w) packageNames;
                     comparisonResults = compareVersions valid installedVersions latestVersions;
                     autoPkgs = getAutoUpdatePackages comparisonResults
                 in if length (map fst autoPkgs) > 0 then
                      (case updatePackages w repo autoPkgs of
                         (u, w') \<Rightarrow>
                           Inr (repositoryReports @
                                  [Report (generateRepositoryReport repo comparisonResults (Some u))],
                                w'))
                    else
                      Inr (repositoryReports @
                             [Report (generateRepositoryReport repo comparisonResults None)],
                           w))))"

text \<open>\<open>processGoRepository(repository, repositoryReports)\<close>.\<close>

definition processGoRepository ::
  "(string \<Rightarrow> SemVer option) \<Rightarrow> world \<Rightarrow> Repository \<Rightarrow> report_entry list \<Rightarrow>
   string + (report_entry list \<times> world)" where
  "processGoRepository coerce w repo repositoryReports =
     (case readGoMod w (goModPath repo) of
        Inl msg \<Rightarrow> Inl msg
      | Inr goMod \<Rightarrow>
          (let latestGoVersion = getLatestGoVersion;
               versionComparison = checkGoVersionUpdate coerce (go goMod) latestGoVersion;
               comparisonResults =
                 [(''go'', \<lparr>updateType = updateType versionComparison,
                           canAutoUpdate = canAutoUpdate versionComparison,
                           installed = go goMod, latest = Some latestGoVersion\<rparr>)]
           in if canAutoUpdate versionComparison then
                (case goUpdater_updateGoVersion w repo latestGoVersion of
                   (u, w') \<Rightarrow>
                     Inr (repositoryReports @
                            [Report (generateRepositoryReport repo comparisonResults (Some u))],
                          w'))
              else
                Inr (repositoryReports @
                       [Report (generateRepositoryReport repo comparisonResults None)],
                     w)))"

text \<open>
  The loop of \<open>main\<close> over the repositories, with its \<open>try\<close>/\<open>catch\<close>: an error thrown
  while processing a repository becomes the element \<open>{path, name, error}\<close>.
\<close>

fun main_loop ::
  "(string \<Rightarrow> SemVer option) \<Rightarrow> (string \<Rightarrow> SemVer option) \<Rightarrow> world \<Rightarrow> Repository list \<Rightarrow>
   report_entry list \<Rightarrow> report_entry list \<times> world" where
  "main_loop valid coerce w [] repositoryReports = (repositoryReports, w)"
| "main_loop valid coerce w (repo # rest) repositoryReports =
     (case (if repo_type repo = ''npm'' then processNpmRepository valid w repo repositoryReports
            else if repo_type repo = ''go'' then processGoRepository coerce w repo repositoryReports
            else Inr (repositoryReports, w)) of
        Inl msg \<Rightarrow>
          main_loop valid coerce w rest
            (repositoryReports @ [Failure (path repo) (basename (path repo)) msg])
      | Inr (repositoryReports', w') \<Rightarrow> main_loop valid coerce w' rest repositoryReports')"

text \<open>
  \<open>main\<close> up to the consolidated report, for the repositories that the scanner found:
  \<open>None\<close> is \<open>process.exit(1)\<close> when there is none. Writing the report and the
  documents is serialisation of the returned value.
\<close>

definition main ::
  "(string \<Rightarrow> SemVer option) \<Rightarrow> (string \<Rightarrow> SemVer option) \<Rightarrow> string \<Rightarrow> world \<Rightarrow> Repository list \<Rightarrow>
   (ConsolidatedReport \<times> world) option" where
  "main valid coerce now w repos =
     (if length repos = 0 then None
      else (case main_loop valid coerce w repos [] of
              (repositoryReports, w') \<Rightarrow>
                Some (generateConsolidatedReport now repositoryReports, w')))"

section \<open>Properties of the version policy\<close>

lemma compareOne_canAutoUpdate:
  "canAutoUpdate (compareOne valid inst lat) = (updateType (compareOne valid inst lat) = ''patch'')"
  by (simp add: compareOne_def Let_def split: option.splits)

lemma compareVersions_loop_entry:
  "map_of (compareVersions_loop valid lv iv results) name = Some r \<Longrightarrow>
   map_of results name = Some r \<or>
   (\<exists>inst. (name, inst) \<in> set iv \<and> r = compareOne valid inst (lookup_nullable lv name))"
proof (induction iv arbitrary: results)
  case Nil
  then show ?case by simp
next
  case (Cons e iv)
  obtain a b where e: "e = (a, b)" by (cases e)
  from Cons.prems e Cons.IH [of "AList.update a (compareOne valid b (lookup_nullable lv a)) results"]
  show ?case
    by (auto simp: update_conv' split: if_splits)
qed

lemma compareVersions_entry:
  "map_of (compareVersions valid iv lv) name = Some r \<Longrightarrow>
   \<exists>inst. (name, inst) \<in> set iv \<and> r = compareOne valid inst (lookup_nullable lv name)"
  using compareVersions_loop_entry [of valid lv iv "[]" name r]
  by (simp add: compareVersions_def)

lemma checkGoVersionUpdate_canAutoUpdate:
  "canAutoUpdate (checkGoVersionUpdate coerce c l)
     = (updateType (checkGoVersionUpdate coerce c l) = ''patch'')"
  by (simp add: checkGoVersionUpdate_def split: option.splits)

text \<open>
  C10. Every entry that \<open>compareVersions\<close> produces has \<open>canAutoUpdate\<close> true exactly
  when its \<open>updateType\<close> is \<open>patch\<close>, and so has the result of
  \<open>checkGoVersionUpdate\<close>, whatever the installed and latest versions are and whatever
  the semver parser accepts.
\<close>

theorem canAutoUpdate_iff_patch:
  "(\<forall>name r. map_of (compareVersions valid installedVersions latestVersions) name = Some r \<longrightarrow>
      canAutoUpdate r = (updateType r = ''patch''))
   \<and> canAutoUpdate (checkGoVersionUpdate coerce currentVersion latestVersion)
       = (updateType (checkGoVersionUpdate coerce currentVersion latestVersion) = ''patch'')"
  using compareVersions_entry compareOne_canAutoUpdate checkGoVersionUpdate_canAutoUpdate
  by blast

theorem canAutoUpdate_iff_patch_witness:
  "map_of (compareVersions semver_valid
             [(''axios'', ''0.21.1''), (''react'', ''17.0.2'')]
             [(''axios'', Some ''0.21.4''), (''react'', Some ''18.2.0'')]) ''axios''
     = Some \<lparr>updateType = ''patch'', canAutoUpdate = True,
              installed = ''0.21.1'', latest = Some ''0.21.4''\<rparr>
   \<and> canAutoUpdate \<lparr>updateType = ''patch'', canAutoUpdate = True,
              installed = ''0.21.1'', latest = Some ''0.21.4''\<rparr>
       = (updateType \<lparr>updateType = ''patch'', canAutoUpdate = True,
              installed = ''0.21.1'', latest = Some ''0.21.4''\<rparr> = ''patch'')"
proof -
  have h: "map_of (compareVersions semver_valid
             [(''axios'', ''0.21.1''), (''react'', ''17.0.2'')]
             [(''axios'', Some ''0.21.4''), (''react'', Some ''18.2.0'')]) ''axios''
     = Some \<lparr>updateType = ''patch'', canAutoUpdate = True,
              installed = ''0.21.1'', latest = Some ''0.21.4''\<rparr>"
    by code_simp
  from canAutoUpdate_iff_patch [of semver_valid
      "[(''axios'', ''0.21.1''), (''react'', ''17.0.2'')]"
      "[(''axios'', Some ''0.21.4''), (''react'', Some ''18.2.0'')]"] h
  show ?thesis by blast
qed

text \<open>
  C1 (as amended). When both version strings parse and the latest version is not older
  than the installed one, \<open>getUpdateType\<close> and \<open>checkGoVersionUpdate\<close> classify by
  the first component, major then minor then patch, at which the two triples differ, and
  as \<open>current\<close> when the triples are equal.
\<close>

theorem classification_first_difference:
  assumes "valid inst = Some a" and "valid lat = Some b" and "not_older a b"
    and "coerce currentVersion = Some c" and "coerce latestVersion = Some d" and "not_older c d"
  shows "getUpdateType valid inst lat = spec_classification a b
       \<and> updateType (checkGoVersionUpdate coerce currentVersion latestVersion) = spec_classification c d"
proof -
  have npm: "getUpdateType valid inst lat = spec_classification a b"
    using assms(1,2,3) by (auto simp: getUpdateType_def spec_classification_def not_older_def)
  have "c = d \<longleftrightarrow> major c = major d \<and> minor c = minor d \<and> patch c = patch d"
    by (cases c, cases d) auto
  then have go: "updateType (checkGoVersionUpdate coerce currentVersion latestVersion) = spec_classification c d"
    using assms(4,5,6) by (auto simp: checkGoVersionUpdate_def spec_classification_def not_older_def)
  from npm go show ?thesis by simp
qed

text \<open>An instance: 1.4.9 against 1.5.0 for npm, 1.21 against 1.22.0 for Go.\<close>

theorem classification_first_difference_witness:
  "semver_valid ''1.4.9'' = Some \<lparr>major = 1, minor = 4, patch = 9\<rparr>
   \<and> semver_valid ''1.5.0'' = Some \<lparr>major = 1, minor = 5, patch = 0\<rparr>
   \<and> not_older \<lparr>major = 1, minor = 4, patch = 9\<rparr> \<lparr>major = 1, minor = 5, patch = 0\<rparr>
   \<and> semver_coerce ''1.21'' = Some \<lparr>major = 1, minor = 21, patch = 0\<rparr>
   \<and> semver_coerce ''1.22.0'' = Some \<lparr>major = 1, minor = 22, patch = 0\<rparr>
   \<and> not_older \<lparr>major = 1, minor = 21, patch = 0\<rparr> \<lparr>major = 1, minor = 22, patch = 0\<rparr>
   \<and> getUpdateType semver_valid ''1.4.9'' ''1.5.0'' = ''minor''
   \<and> updateType (checkGoVersionUpdate semver_coerce ''1.21'' ''1.22.0'') = ''minor''"
proof -
  have h1: "semver_valid ''1.4.9'' = Some \<lparr>major = 1, minor = 4, patch = 9\<rparr>" by code_simp
  have h2: "semver_valid ''1.5.0'' = Some \<lparr>major = 1, minor = 5, patch = 0\<rparr>" by code_simp
  have h3: "not_older \<lparr>major = 1, minor = 4, patch = 9\<rparr> \<lparr>major = 1, minor = 5, patch = 0\<rparr>"
    by (simp add: not_older_def)
  have h4: "semver_coerce ''1.21'' = Some \<lparr>major = 1, minor = 21, patch = 0\<rparr>" by code_simp
  have h5: "semver_coerce ''1.22.0'' = Some \<lparr>major = 1, minor = 22, patch = 0\<rparr>" by code_simp
  have h6: "not_older \<lparr>major = 1, minor = 21, patch = 0\<rparr> \<lparr>major = 1, minor = 22, patch = 0\<rparr>"
    by (simp add: not_older_def)
  from classification_first_difference [where valid = semver_valid and inst = "''1.4.9''"
      and lat = "''1.5.0''" and coerce = semver_coerce and currentVersion = "''1.21''"
      and latestVersion = "''1.22.0''", OF h1 h2 h3 h4 h5 h6] h1 h2 h3 h4 h5 h6
  show ?thesis by (simp add: spec_classification_def)
qed

text \<open>
  C1 as stated fails when the installed version is ahead: the comparisons only test
  whether a component of the latest version is greater. Installed 2.0.0 against latest
  1.5.0 differs first in the major component and \<open>getUpdateType\<close> answers \<open>minor\<close>;
  Go 1.23.0 against 1.22.0 differs first in the minor component and
  \<open>checkGoVersionUpdate\<close> answers \<open>unknown\<close>.
\<close>

theorem classification_direction_counterexample:
  "semver_valid ''2.0.0'' = Some \<lparr>major = 2, minor = 0, patch = 0\<rparr>
   \<and> semver_valid ''1.5.0'' = Some \<lparr>major = 1, minor = 5, patch = 0\<rparr>
   \<and> spec_classification \<lparr>major = 2, minor = 0, patch = 0\<rparr> \<lparr>major = 1, minor = 5, patch = 0\<rparr> = ''major''
   \<and> getUpdateType semver_valid ''2.0.0'' ''1.5.0'' = ''minor''
   \<and> semver_coerce ''1.23.0'' = Some \<lparr>major = 1, minor = 23, patch = 0\<rparr>
   \<and> semver_coerce ''1.22.0'' = Some \<lparr>major = 1, minor = 22, patch = 0\<rparr>
   \<and> spec_classification \<lparr>major = 1, minor = 23, patch = 0\<rparr> \<lparr>major = 1, minor = 22, patch = 0\<rparr> = ''minor''
   \<and> updateType (checkGoVersionUpdate semver_coerce ''1.23.0'' ''1.22.0'') = ''unknown''"
  by code_simp

section \<open>Properties of analyzer.js\<close>

lemma store_batch_map:
  "store_batch acc batch (map f batch)
     = foldl (\<lambda>acc n. AList.update n (stored_version (f n)) acc) acc batch"
  unfolding store_batch_def
  by (induction batch arbitrary: acc) simp_all

lemma fetchLatestVersions_loop_foldl:
  "fetchLatestVersions_loop f names i acc
     = foldl (\<lambda>acc n. AList.update n (stored_version (f n)) acc) acc (drop i names)"
proof (induction f names i acc rule: fetchLatestVersions_loop.induct)
  case (1 f names i acc)
  show ?case
  proof (cases "i < length names")
    case True
    have split: "drop i names = take 10 (drop i names) @ drop (i + 10) names"
      by (metis add.commute append_take_drop_id drop_drop)
    have "fetchLatestVersions_loop f names i acc
            = fetchLatestVersions_loop f names (i + 10)
                (store_batch acc (take 10 (drop i names)) (map f (take 10 (drop i names))))"
      using True by (subst fetchLatestVersions_loop.simps) (simp add: Let_def del: fetchLatestVersions_loop.simps)
    also have "\<dots> = foldl (\<lambda>acc n. AList.update n (stored_version (f n)) acc)
                       (store_batch acc (take 10 (drop i names)) (map f (take 10 (drop i names))))
                       (drop (i + 10) names)"
      using "1.IH" [OF True refl refl] .
    also have "\<dots> = foldl (\<lambda>acc n. AList.update n (stored_version (f n)) acc) acc
                       (take 10 (drop i names) @ drop (i + 10) names)"
      by (simp only: store_batch_map foldl_append)
    finally show ?thesis using split by simp
  next
    case False
    then show ?thesis by (subst fetchLatestVersions_loop.simps) simp
  qed
qed

lemma fetchLatestVersions_foldl:
  "fetchLatestVersions f names = foldl (\<lambda>acc n. AList.update n (stored_version (f n)) acc) [] names"
  unfolding fetchLatestVersions_def fetchLatestVersions_loop_foldl by simp

lemma map_of_store:
  "map_of (foldl (\<lambda>acc n. AList.update n (g n) acc) acc names) k
     = (if k \<in> set names then Some (g k) else map_of acc k)"
  by (induction names arbitrary: acc) (auto simp: update_conv')

lemma keys_store:
  "fst ` set (foldl (\<lambda>acc n. AList.update n (g n) acc) acc names) = fst ` set acc \<union> set names"
  by (induction names arbitrary: acc) (auto simp: dom_update)

lemma store_distinct:
  "distinct (map fst acc @ names) \<Longrightarrow>
   foldl (\<lambda>acc n. AList.update n (g n) acc) acc names = acc @ map (\<lambda>n. (n, g n)) names"
proof (induction names arbitrary: acc)
  case Nil
  then show ?case by simp
next
  case (Cons n names)
  have notin: "n \<notin> fst ` set acc" using Cons.prems by auto
  then have upd: "AList.update n (g n) acc = acc @ [(n, g n)]"
    by (induction acc) auto
  have "distinct (map fst (acc @ [(n, g n)]) @ names)" using Cons.prems by auto
  from Cons.IH [OF this] upd show ?case by simp
qed

text \<open>
  C9. For every list of package names and every registry, \<open>fetchLatestVersions\<close>
  returns (it is a total function: a rejected lookup is a value, never an exception) an
  object whose keys are exactly the requested names; a name whose lookup is rejected maps
  to \<open>null\<close>, a name whose lookup is fulfilled with a version maps to that version,
  whatever happens to the other names of its batch. For distinct names the number of
  \<open>null\<close> entries is the number of names whose lookup gave no version, and the number
  of populated entries is the number of the others: ten names with one failure give one
  \<open>null\<close> entry and nine populated ones.
\<close>

theorem fetchLatestVersions_contains_failures:
  "fst ` set (fetchLatestVersions fetchPackageInfo packageNames) = set packageNames
   \<and> (\<forall>name \<in> set packageNames.
         (\<forall>reason. fetchPackageInfo name = Rejected reason \<longrightarrow>
            map_of (fetchLatestVersions fetchPackageInfo packageNames) name = Some None)
       \<and> (\<forall>v. fetchPackageInfo name = Fulfilled (Some v) \<and> v \<noteq> [] \<longrightarrow>
            map_of (fetchLatestVersions fetchPackageInfo packageNames) name = Some (Some v)))
   \<and> (distinct packageNames \<longrightarrow>
         length (filter (\<lambda>(name, v). v = None) (fetchLatestVersions fetchPackageInfo packageNames))
           = length (filter (\<lambda>name. stored_version (fetchPackageInfo name) = None) packageNames)
       \<and> length (filter (\<lambda>(name, v). v \<noteq> None) (fetchLatestVersions fetchPackageInfo packageNames))
           = length (filter (\<lambda>name. stored_version (fetchPackageInfo name) \<noteq> None) packageNames))"
proof -
  let ?r = "fetchLatestVersions fetchPackageInfo packageNames"
  have keys: "fst ` set ?r = set packageNames"
    by (simp add: fetchLatestVersions_foldl keys_store)
  have entry: "\<And>name. name \<in> set packageNames \<Longrightarrow>
      map_of ?r name = Some (stored_version (fetchPackageInfo name))"
    by (simp add: fetchLatestVersions_foldl map_of_store)
  have rej: "\<forall>name \<in> set packageNames. \<forall>reason. fetchPackageInfo name = Rejected reason \<longrightarrow>
      map_of ?r name = Some None"
    using entry by (simp add: stored_version_def)
  have ful: "\<forall>name \<in> set packageNames. \<forall>v. fetchPackageInfo name = Fulfilled (Some v) \<and> v \<noteq> [] \<longrightarrow>
      map_of ?r name = Some (Some v)"
    using entry by (simp add: stored_version_def truthy_def)
  have cnt: "distinct packageNames \<longrightarrow>
         length (filter (\<lambda>(name, v). v = None) ?r)
           = length (filter (\<lambda>name. stored_version (fetchPackageInfo name) = None) packageNames)
       \<and> length (filter (\<lambda>(name, v). v \<noteq> None) ?r)
           = length (filter (\<lambda>name. stored_version (fetchPackageInfo name) \<noteq> None) packageNames)"
  proof
    assume d: "distinct packageNames"
    have "?r = map (\<lambda>n. (n, stored_version (fetchPackageInfo n))) packageNames"
      using store_distinct [of "[]" packageNames] d by (simp add: fetchLatestVersions_foldl)
    then show "length (filter (\<lambda>(name, v). v = None) ?r)
           = length (filter (\<lambda>name. stored_version (fetchPackageInfo name) = None) packageNames)
       \<and> length (filter (\<lambda>(name, v). v \<noteq> None) ?r)
           = length (filter (\<lambda>name. stored_version (fetchPackageInfo name) \<noteq> None) packageNames)"
      by (simp add: filter_map comp_def)
  qed
  from keys rej ful cnt show ?thesis by blast
qed


text \<open>Ten names, of which \<open>lodash\<close> is rejected by the registry.\<close>

theorem fetchLatestVersions_contains_failures_witness:
  "distinct [''axios'', ''react'', ''lodash'', ''chalk'', ''glob'', ''semver'', ''dotenv'',
             ''express'', ''debug'', ''yargs'']
   \<and> map_of (fetchLatestVersions
         (\<lambda>name. if name = ''lodash'' then Rejected ''Request failed''
                 else Fulfilled (Some ''1.0.0''))
         [''axios'', ''react'', ''lodash'', ''chalk'', ''glob'', ''semver'', ''dotenv'',
          ''express'', ''debug'', ''yargs'']) ''lodash'' = Some None
   \<and> map_of (fetchLatestVersions
         (\<lambda>name. if name = ''lodash'' then Rejected ''Request failed''
                 else Fulfilled (Some ''1.0.0''))
         [''axios'', ''react'', ''lodash'', ''chalk'', ''glob'', ''semver'', ''dotenv'',
          ''express'', ''debug'', ''yargs'']) ''yargs'' = Some (Some ''1.0.0'')
   \<and> length (filter (\<lambda>(name, v). v = None) (fetchLatestVersions
         (\<lambda>name. if name = ''lodash'' then Rejected ''Request failed''
                 else Fulfilled (Some ''1.0.0''))
         [''axios'', ''react'', ''lodash'', ''chalk'', ''glob'', ''semver'', ''dotenv'',
          ''express'', ''debug'', ''yargs''])) = 1
   \<and> length (filter (\<lambda>(name, v). v \<noteq> None) (fetchLatestVersions
         (\<lambda>name. if name = ''lodash'' then Rejected ''Request failed''
                 else Fulfilled (Some ''1.0.0''))
         [''axios'', ''react'', ''lodash'', ''chalk'', ''glob'', ''semver'', ''dotenv'',
          ''express'', ''debug'', ''yargs''])) = 9"
proof -
  let ?reg = "\<lambda>name. if name = ''lodash'' then Rejected ''Request failed''
                 else Fulfilled (Some ''1.0.0'') :: string option settled"
  let ?names = "[''axios'', ''react'', ''lodash'', ''chalk'', ''glob'', ''semver'', ''dotenv'',
                 ''express'', ''debug'', ''yargs'']"
  have d: "distinct ?names" by simp
  have n1: "length (filter (\<lambda>name. stored_version (?reg name) = None) ?names) = 1"
    by (simp add: stored_version_def truthy_def)
  have n9: "length (filter (\<lambda>name. stored_version (?reg name) \<noteq> None) ?names) = 9"
    by (simp add: stored_version_def truthy_def)
  have m1: "''lodash'' \<in> set ?names" and r1: "?reg ''lodash'' = Rejected ''Request failed''"
    by simp_all
  have m2: "''yargs'' \<in> set ?names" and r2: "?reg ''yargs'' = Fulfilled (Some ''1.0.0'') \<and> ''1.0.0'' \<noteq> []"
    by simp_all
  note T = fetchLatestVersions_contains_failures [of ?reg ?names]
  from T m1 r1 have a: "map_of (fetchLatestVersions ?reg ?names) ''lodash'' = Some None"
    by blast
  from T m2 r2 have b: "map_of (fetchLatestVersions ?reg ?names) ''yargs'' = Some (Some ''1.0.0'')"
    by blast
  from T d have c:
    "length (filter (\<lambda>(name, v). v = None) (fetchLatestVersions ?reg ?names))
       = length (filter (\<lambda>name. stored_version (?reg name) = None) ?names)"
    "length (filter (\<lambda>(name, v). v \<noteq> None) (fetchLatestVersions ?reg ?names))
       = length (filter (\<lambda>name. stored_version (?reg name) \<noteq> None) ?names)"
    by blast+
  from d a b c n1 n9 show ?thesis by (simp only: simp_thms)
qed

text \<open>
  What \<open>getInstalledVersions\<close> returns for a declared name, by the shape of the lock:
  without a lock the stripped range; with the old section the pinned version of the name,
  else the stripped range (the new section is then not consulted); with the new section
  only, the pinned version of \<open>node_modules/<name>\<close>, else the stripped range; with
  neither section the empty object.
\<close>

lemma fold_update_other:
  "n \<notin> fst ` set deps \<Longrightarrow>
   map_of (foldl (\<lambda>acc (n, d). AList.update n (g n d) acc) acc deps) n = map_of acc n"
  by (induction deps arbitrary: acc) (auto simp: update_conv')

lemma fold_update_value:
  "distinct (map fst deps) \<Longrightarrow> (n, d) \<in> set deps \<Longrightarrow>
   map_of (foldl (\<lambda>acc (n, d). AList.update n (g n d) acc) acc deps) n = Some (g n d)"
proof (induction deps arbitrary: acc)
  case Nil
  then show ?case by simp
next
  case (Cons e deps)
  obtain n' d' where e: "e = (n', d')" by (cases e)
  show ?case
  proof (cases "(n, d) \<in> set deps")
    case True
    with Cons.prems have "distinct (map fst deps)" by simp
    from Cons.IH [OF this True] show ?thesis by (simp add: e)
  next
    case False
    with Cons.prems e have eq: "n' = n" "d' = d" by auto
    from Cons.prems e eq have "n \<notin> fst ` set deps" by auto
    then have "map_of (foldl (\<lambda>acc (n, d). AList.update n (g n d) acc)
                  (AList.update n (g n d) acc) deps) n
               = map_of (AList.update n (g n d) acc) n"
      by (rule fold_update_other)
    then show ?thesis by (simp add: e eq update_conv')
  qed
qed

lemma getInstalledVersions_with_section:
  assumes "distinct (map fst deps)" and "(name, declared) \<in> set deps"
  shows "map_of (getInstalledVersions None deps) name = Some (strip_range declared)"
    and "lock_dependencies lock = Some lockDeps \<Longrightarrow>
         map_of (getInstalledVersions (Some lock) deps) name
           = Some (case pinned_version lockDeps name of
                     Some v \<Rightarrow> v | None \<Rightarrow> strip_range declared)"
    and "lock_dependencies lock = None \<Longrightarrow> packages lock = Some pkgs \<Longrightarrow>
         map_of (getInstalledVersions (Some lock) deps) name
           = Some (case pinned_version pkgs (''node_modules/'' @ name) of
                     Some v \<Rightarrow> v | None \<Rightarrow> strip_range declared)"
    and "lock_dependencies lock = None \<Longrightarrow> packages lock = None \<Longrightarrow>
         getInstalledVersions (Some lock) deps = []"
  using fold_update_value [OF assms, where g = "\<lambda>n d. strip_range d"]
        fold_update_value [OF assms, where g = "\<lambda>n d. case pinned_version lockDeps n of
                     Some v \<Rightarrow> v | None \<Rightarrow> strip_range d"]
        fold_update_value [OF assms, where g = "\<lambda>n d. case pinned_version pkgs (''node_modules/'' @ n) of
                     Some v \<Rightarrow> v | None \<Rightarrow> strip_range d"]
  by (simp_all add: getInstalledVersions_def)

text \<open>
  C5. A lock object that has neither the \<open>dependencies\<close> nor the \<open>packages\<close>
  section makes \<open>getInstalledVersions\<close> return the empty object: the declared name
  \<open>axios\<close> is missing from the result, where a \<open>null\<close> lock gives the stripped
  range \<open>0.21.1\<close>.
\<close>

theorem getInstalledVersions_lock_without_sections:
  "getInstalledVersions (Some \<lparr>lock_dependencies = None, packages = None\<rparr>)
     [(''axios'', ''^0.21.1'')] = []
   \<and> getInstalledVersions None [(''axios'', ''^0.21.1'')] = [(''axios'', ''0.21.1'')]"
  by (simp add: getInstalledVersions_def strip_range_def)

section \<open>Properties of updater.js\<close>

lemma caret_truthy: "truthy (Some (caret v))"
  by (simp add: truthy_def caret_def)

lemma truthy_key: "truthy (map_of al k) \<Longrightarrow> k \<in> fst ` set al"
  by (auto simp: truthy_def domI dom_map_of_conv_image_fst [symmetric] split: option.splits)

lemma update_present_swap:
  "k \<noteq> k' \<Longrightarrow> k \<in> fst ` set al \<Longrightarrow> k' \<in> fst ` set al \<Longrightarrow>
   AList.update k v (AList.update k' v' al) = AList.update k' v' (AList.update k v al)"
  by (induction al) auto

lemma update_section_Cons:
  "update_section ty ((k, v) # rest) sec u =
     update_section ty rest (rewrite_entry k v sec)
       (if truthy (map_of sec k)
        then AList.update k \<lparr>type = ty, from = Some (caret v), to = caret v\<rparr> u else u)"
  by (simp add: rewrite_entry_def Let_def update_conv')

lemma rewrite_entry_truthy:
  "truthy (map_of (rewrite_entry k v sec) k') = truthy (map_of sec k')"
  by (auto simp: rewrite_entry_def update_conv' caret_truthy)

lemma update_section_truthy:
  "truthy (map_of (fst (update_section ty xs sec u)) k) = truthy (map_of sec k)"
proof (induction xs arbitrary: sec u)
  case Nil
  then show ?case by simp
next
  case (Cons x xs)
  obtain a v where x: "x = (a, v)" by (cases x)
  show ?case unfolding x update_section_Cons
    by (simp only: Cons.IH rewrite_entry_truthy)
qed

lemma update_section_snd_cong:
  "(\<And>k. truthy (map_of s k) = truthy (map_of t k)) \<Longrightarrow>
   snd (update_section ty xs s u) = snd (update_section ty xs t u)"
proof (induction xs arbitrary: s t u)
  case Nil
  then show ?case by simp
next
  case (Cons x xs)
  obtain a v where x: "x = (a, v)" by (cases x)
  have "\<And>k. truthy (map_of (rewrite_entry a v s) k) = truthy (map_of (rewrite_entry a v t) k)"
    by (simp add: rewrite_entry_truthy Cons.prems)
  from Cons.IH [OF this] Cons.prems [of a] show ?case
    unfolding x update_section_Cons by simp
qed

lemma update_section_fst_indep:
  "fst (update_section ty xs s u) = fst (update_section ty' xs s u')"
proof (induction xs arbitrary: s u u')
  case Nil
  then show ?case by simp
next
  case (Cons x xs)
  obtain a v where x: "x = (a, v)" by (cases x)
  show ?case unfolding x update_section_Cons by (rule Cons.IH)
qed

lemma update_section_other_key:
  "k \<notin> fst ` set xs \<Longrightarrow> map_of (fst (update_section ty xs s u)) k = map_of s k"
proof (induction xs arbitrary: s u)
  case Nil
  then show ?case by simp
next
  case (Cons x xs)
  obtain a v where x: "x = (a, v)" by (cases x)
  from Cons.prems x have "k \<noteq> a" "k \<notin> fst ` set xs" by auto
  then show ?case unfolding x update_section_Cons
    by (simp add: Cons.IH rewrite_entry_def update_conv')
qed

lemma update_section_overwritten:
  "k \<in> fst ` set xs \<Longrightarrow> truthy (map_of t k) \<Longrightarrow> c \<noteq> [] \<Longrightarrow>
   fst (update_section ty xs (AList.update k c t) u) = fst (update_section ty xs t u)"
proof (induction xs arbitrary: t u)
  case Nil
  then show ?case by simp
next
  case (Cons x xs)
  obtain a v where x: "x = (a, v)" by (cases x)
  show ?case
  proof (cases "a = k")
    case True
    then have "rewrite_entry a v (AList.update k c t) = rewrite_entry a v t"
      using Cons.prems(2,3) by (simp add: rewrite_entry_def update_conv' truthy_def)
    then show ?thesis unfolding x update_section_Cons
      by (simp add: update_section_fst_indep [of ty xs _ _ ty])
  next
    case False
    with Cons.prems x have kin: "k \<in> fst ` set xs" by auto
    show ?thesis
    proof (cases "truthy (map_of t a)")
      case True
      have "rewrite_entry a v (AList.update k c t) = AList.update k c (rewrite_entry a v t)"
        using True False Cons.prems(2)
        by (simp add: rewrite_entry_def update_conv' update_present_swap truthy_key)
      moreover have "truthy (map_of (rewrite_entry a v t) k)"
        using Cons.prems(2) by (simp add: rewrite_entry_truthy)
      ultimately show ?thesis unfolding x update_section_Cons
        using Cons.IH [OF kin _ Cons.prems(3), of "rewrite_entry a v t"]
        by (metis update_section_fst_indep)
    next
      case F2: False
      then have "rewrite_entry a v (AList.update k c t) = AList.update k c t"
        "rewrite_entry a v t = t"
        using False by (simp_all add: rewrite_entry_def update_conv')
      then show ?thesis unfolding x update_section_Cons
        using Cons.IH [OF kin Cons.prems(2,3)]
        by (metis update_section_fst_indep)
    qed
  qed
qed

lemma update_section_idem:
  "fst (update_section ty xs (fst (update_section ty xs s u)) u') = fst (update_section ty xs s u)"
proof (induction xs arbitrary: s u u')
  case Nil
  then show ?case by simp
next
  case (Cons x xs)
  obtain a v where x: "x = (a, v)" by (cases x)
  let ?s' = "rewrite_entry a v s"
  let ?t = "fst (update_section ty xs ?s' u)"
  have t_fix: "\<And>u0. fst (update_section ty xs ?t u0) = ?t"
    by (rule Cons.IH)
  have indep: "\<And>u1 u2. fst (update_section ty xs ?s' u1) = fst (update_section ty xs ?s' u2)"
    by (rule update_section_fst_indep)
  have goal: "\<And>u0. fst (update_section ty xs (rewrite_entry a v ?t) u0) = ?t"
  proof -
    fix u0
    show "fst (update_section ty xs (rewrite_entry a v ?t) u0) = ?t"
    proof (cases "truthy (map_of s a)")
      case False
      then have "\<not> truthy (map_of ?t a)"
        by (simp add: update_section_truthy rewrite_entry_truthy)
      then have "rewrite_entry a v ?t = ?t" by (simp add: rewrite_entry_def)
      then show ?thesis by (simp add: t_fix)
    next
      case True
      then have tt: "truthy (map_of ?t a)"
        by (simp add: update_section_truthy rewrite_entry_truthy)
      then have re: "rewrite_entry a v ?t = AList.update a (caret v) ?t"
        by (simp add: rewrite_entry_def)
      show ?thesis
      proof (cases "a \<in> fst ` set xs")
        case True
        have "caret v \<noteq> []" by (simp add: caret_def)
        from update_section_overwritten [OF True tt this] re t_fix show ?thesis by simp
      next
        case False
        have "map_of ?t a = map_of ?s' a" by (rule update_section_other_key [OF False])
        also have "\<dots> = Some (caret v)" using True by (simp add: rewrite_entry_def update_conv')
        finally have "AList.update a (caret v) ?t = ?t" by (rule update_triv)
        with re t_fix show ?thesis by simp
      qed
    qed
  qed
  have "fst (update_section ty (x # xs) (fst (update_section ty (x # xs) s u)) u')
      = fst (update_section ty xs (rewrite_entry a v (fst (update_section ty xs ?s'
           (if truthy (map_of s a)
            then AList.update a \<lparr>type = ty, from = Some (caret v), to = caret v\<rparr> u else u))))
           (if truthy (map_of (fst (update_section ty (x # xs) s u)) a)
            then AList.update a \<lparr>type = ty, from = Some (caret v), to = caret v\<rparr> u' else u'))"
    unfolding x update_section_Cons ..
  also have "\<dots> = ?t"
    using goal indep by metis
  also have "?t = fst (update_section ty (x # xs) s u)"
    unfolding x update_section_Cons using indep by metis
  finally show ?case .
qed

lemma update_optional_section_alt:
  "update_optional_section ty xs sec u =
     (case sec of
        None \<Rightarrow> (None, u)
      | Some s \<Rightarrow> (Some (fst (update_section ty xs s u)), snd (update_section ty xs s u)))"
  by (simp add: update_optional_section_def split: option.splits prod.splits)

lemma update_optional_section_fst:
  "fst (update_optional_section ty xs (fst (update_optional_section ty xs sec u)) u')
     = fst (update_optional_section ty xs sec u)"
proof (cases sec)
  case None
  then show ?thesis by (simp add: update_optional_section_alt)
next
  case (Some s)
  from update_section_idem [of ty xs s u u'] show ?thesis
    by (simp add: Some update_optional_section_alt)
qed

lemma update_optional_section_snd:
  "snd (update_optional_section ty xs (fst (update_optional_section ty xs sec u)) u')
     = snd (update_optional_section ty xs sec u')"
proof (cases sec)
  case None
  then show ?thesis by (simp add: update_optional_section_alt)
next
  case (Some s)
  have "snd (update_section ty xs (fst (update_section ty xs s u)) u')
          = snd (update_section ty xs s u')"
    by (rule update_section_snd_cong) (rule update_section_truthy)
  then show ?thesis
    by (simp add: Some update_optional_section_alt)
qed

lemma rewrite_sections_idem:
  "rewrite_sections (fst (rewrite_sections packageJson xs)) xs = rewrite_sections packageJson xs"
proof -
  obtain d u1 where a: "update_optional_section ''dependencies'' xs (dependencies packageJson) [] = (d, u1)"
    by (cases "update_optional_section ''dependencies'' xs (dependencies packageJson) []")
  obtain dd u2 where b: "update_optional_section ''devDependencies'' xs (devDependencies packageJson) u1 = (dd, u2)"
    by (cases "update_optional_section ''devDependencies'' xs (devDependencies packageJson) u1")
  obtain od u3 where c: "update_optional_section ''optionalDependencies'' xs (optionalDependencies packageJson) u2 = (od, u3)"
    by (cases "update_optional_section ''optionalDependencies'' xs (optionalDependencies packageJson) u2")
  have r: "rewrite_sections packageJson xs
             = (\<lparr>dependencies = d, devDependencies = dd, optionalDependencies = od\<rparr>, u3)"
    by (simp add: rewrite_sections_def a b c)
  have a': "update_optional_section ''dependencies'' xs d [] = (d, u1)"
    using update_optional_section_fst [of "''dependencies''" xs "dependencies packageJson" "[]" "[]"]
          update_optional_section_snd [of "''dependencies''" xs "dependencies packageJson" "[]" "[]"]
    by (simp add: a prod_eq_iff)
  have b': "update_optional_section ''devDependencies'' xs dd u1 = (dd, u2)"
    using update_optional_section_fst [of "''devDependencies''" xs "devDependencies packageJson" u1 u1]
          update_optional_section_snd [of "''devDependencies''" xs "devDependencies packageJson" u1 u1]
    by (simp add: b prod_eq_iff)
  have c': "update_optional_section ''optionalDependencies'' xs od u2 = (od, u3)"
    using update_optional_section_fst [of "''optionalDependencies''" xs "optionalDependencies packageJson" u2 u2]
          update_optional_section_snd [of "''optionalDependencies''" xs "optionalDependencies packageJson" u2 u2]
    by (simp add: c prod_eq_iff)
  show ?thesis
    unfolding r by (simp add: rewrite_sections_def a' b' c')
qed

lemma updatePackages_repeat:
  assumes "updatePackages w repo xs = (r1, w1)"
  shows "updatePackages w1 repo xs = (r1, w1)"
proof (cases "length (map fst xs) = 0")
  case True
  with assms show ?thesis by (auto simp: updatePackages_def)
next
  case nonempty: False
  show ?thesis
  proof (cases "updatePackageJson w (packageJsonPath repo) xs")
    case (Inl msg)
    with assms nonempty have "w1 = w" by (auto simp: updatePackages_def)
    with assms show ?thesis by simp
  next
    case (Inr res)
    obtain pj' u w' where res: "res = ((pj', u), w')" by (cases res) auto
    from Inr res obtain p pj where
      p: "packageJsonPath repo = Some p" and
      m: "map_of (manifests w) p = Some (Inr pj)" and
      rw: "rewrite_sections pj xs = (pj', u)" and
      ro: "p \<notin> set (readonly w)" and
      w': "w' = w\<lparr>manifests := AList.update p (Inr pj') (manifests w)\<rparr>"
      by (auto simp: updatePackageJson_def split: option.splits sum.splits prod.splits if_splits)
    from rw rewrite_sections_idem [of pj xs] have rw': "rewrite_sections pj' xs = (pj', u)"
      by simp
    have "updatePackageJson w' (packageJsonPath repo) xs = Inr ((pj', u), w')"
      by (simp add: updatePackageJson_def p w' update_conv' rw' ro)
    moreover from assms nonempty Inr res have
      "w1 = w'" by (auto simp: updatePackages_def)
    moreover have "npm_install_ok w' = npm_install_ok w" by (simp add: w')
    ultimately show ?thesis
      using assms nonempty Inr res
      by (auto simp: updatePackages_def updatePackageLock_def)
  qed
qed

text \<open>
  C4 (as amended). A second call of \<open>updatePackages\<close> with the same map, on the files
  that the first call left, leaves the manifests unchanged and reports again the entries
  that the first call reported: the same names with the same section and the same
  \<open>to\<close>. The changed-set of the second call is empty only if that of the first was.
\<close>

theorem updatePackages_second_run:
  assumes "updatePackages w repo packagesToUpdate = (r1, w1)"
      and "updatePackages w1 repo packagesToUpdate = (r2, w2)"
  shows "manifests w2 = manifests w1
       \<and> updated r2 = updated r1
       \<and> map_option (map (\<lambda>(name, e). (name, type e, to e))) (updatedDependencies r2)
           = map_option (map (\<lambda>(name, e). (name, type e, to e))) (updatedDependencies r1)"
  using updatePackages_repeat [OF assms(1)] assms(2) by simp


text \<open>An instance: \<open>axios\<close> declared as \<open>^0.21.1\<close>, approved at \<open>0.21.4\<close>.\<close>

theorem updatePackages_second_run_witness:
  "manifests (snd (updatePackages (snd (updatePackages
     \<lparr>manifests = [(''/repo/package.json'',
         Inr \<lparr>dependencies = Some [(''axios'', ''^0.21.1'')], devDependencies = None,
              optionalDependencies = None\<rparr>)],
      locks = [], gomods = [], readonly = [],
      npm_registry = (\<lambda>name. Fulfilled (Some ''0.21.4'')),
      npm_install_ok = (\<lambda>p. True), go_mod_tidy_ok = (\<lambda>p. True)\<rparr>
     \<lparr>path = ''/repo'', repo_type = ''npm'', packageJsonPath = Some ''/repo/package.json'',
      packageLockPath = None, goModPath = None\<rparr>
     [(''axios'', Some ''0.21.4'')]))
     \<lparr>path = ''/repo'', repo_type = ''npm'', packageJsonPath = Some ''/repo/package.json'',
      packageLockPath = None, goModPath = None\<rparr>
     [(''axios'', Some ''0.21.4'')]))
     = manifests (snd (updatePackages
     \<lparr>manifests = [(''/repo/package.json'',
         Inr \<lparr>dependencies = Some [(''axios'', ''^0.21.1'')], devDependencies = None,
              optionalDependencies = None\<rparr>)],
      locks = [], gomods = [], readonly = [],
      npm_registry = (\<lambda>name. Fulfilled (Some ''0.21.4'')),
      npm_install_ok = (\<lambda>p. True), go_mod_tidy_ok = (\<lambda>p. True)\<rparr>
     \<lparr>path = ''/repo'', repo_type = ''npm'', packageJsonPath = Some ''/repo/package.json'',
      packageLockPath = None, goModPath = None\<rparr>
     [(''axios'', Some ''0.21.4'')]))
   \<and> updated (fst (updatePackages (snd (updatePackages
     \<lparr>manifests = [(''/repo/package.json'',
         Inr \<lparr>dependencies = Some [(''axios'', ''^0.21.1'')], devDependencies = None,
              optionalDependencies = None\<rparr>)],
      locks = [], gomods = [], readonly = [],
      npm_registry = (\<lambda>name. Fulfilled (Some ''0.21.4'')),
      npm_install_ok = (\<lambda>p. True), go_mod_tidy_ok = (\<lambda>p. True)\<rparr>
     \<lparr>path = ''/repo'', repo_type = ''npm'', packageJsonPath = Some ''/repo/package.json'',
      packageLockPath = None, goModPath = None\<rparr>
     [(''axios'', Some ''0.21.4'')]))
     \<lparr>path = ''/repo'', repo_type = ''npm'', packageJsonPath = Some ''/repo/package.json'',
      packageLockPath = None, goModPath = None\<rparr>
     [(''axios'', Some ''0.21.4'')]))
     = updated (fst (updatePackages
     \<lparr>manifests = [(''/repo/package.json'',
         Inr \<lparr>dependencies = Some [(''axios'', ''^0.21.1'')], devDependencies = None,
              optionalDependencies = None\<rparr>)],
      locks = [], gomods = [], readonly = [],
      npm_registry = (\<lambda>name. Fulfilled (Some ''0.21.4'')),
      npm_install_ok = (\<lambda>p. True), go_mod_tidy_ok = (\<lambda>p. True)\<rparr>
     \<lparr>path = ''/repo'', repo_type = ''npm'', packageJsonPath = Some ''/repo/package.json'',
      packageLockPath = None, goModPath = None\<rparr>
     [(''axios'', Some ''0.21.4'')]))
   \<and> map_option (map (\<lambda>(name, e). (name, type e, to e)))
        (updatedDependencies (fst (updatePackages (snd (updatePackages
     \<lparr>manifests = [(''/repo/package.json'',
         Inr \<lparr>dependencies = Some [(''axios'', ''^0.21.1'')], devDependencies = None,
              optionalDependencies = None\<rparr>)],
      locks = [], gomods = [], readonly = [],
      npm_registry = (\<lambda>name. Fulfilled (Some ''0.21.4'')),
      npm_install_ok = (\<lambda>p. True), go_mod_tidy_ok = (\<lambda>p. True)\<rparr>
     \<lparr>path = ''/repo'', repo_type = ''npm'', packageJsonPath = Some ''/repo/package.json'',
      packageLockPath = None, goModPath = None\<rparr>
     [(''axios'', Some ''0.21.4'')]))
     \<lparr>path = ''/repo'', repo_type = ''npm'', packageJsonPath = Some ''/repo/package.json'',
      packageLockPath = None, goModPath = None\<rparr>
     [(''axios'', Some ''0.21.4'')])))
     = map_option (map (\<lambda>(name, e). (name, type e, to e)))
        (updatedDependencies (fst (updatePackages
     \<lparr>manifests = [(''/repo/package.json'',
         Inr \<lparr>dependencies = Some [(''axios'', ''^0.21.1'')], devDependencies = None,
              optionalDependencies = None\<rparr>)],
      locks = [], gomods = [], readonly = [],
      npm_registry = (\<lambda>name. Fulfilled (Some ''0.21.4'')),
      npm_install_ok = (\<lambda>p. True), go_mod_tidy_ok = (\<lambda>p. True)\<rparr>
     \<lparr>path = ''/repo'', repo_type = ''npm'', packageJsonPath = Some ''/repo/package.json'',
      packageLockPath = None, goModPath = None\<rparr>
     [(''axios'', Some ''0.21.4'')])))"
  by (rule updatePackages_second_run [OF prod.collapse [symmetric] prod.collapse [symmetric]])

text \<open>
  C4 as stated fails: the second call records \<open>axios\<close> again, so its changed-set is
  not empty. \<open>updatePackageJson\<close> never compares the old value with the new one.
\<close>

theorem updatePackages_second_run_counterexample:
  "updatedDependencies (fst (updatePackages (snd (updatePackages
     \<lparr>manifests = [(''/repo/package.json'',
         Inr \<lparr>dependencies = Some [(''axios'', ''^0.21.1'')], devDependencies = None,
              optionalDependencies = None\<rparr>)],
      locks = [], gomods = [], readonly = [],
      npm_registry = (\<lambda>name. Fulfilled (Some ''0.21.4'')),
      npm_install_ok = (\<lambda>p. True), go_mod_tidy_ok = (\<lambda>p. True)\<rparr>
     \<lparr>path = ''/repo'', repo_type = ''npm'', packageJsonPath = Some ''/repo/package.json'',
      packageLockPath = None, goModPath = None\<rparr>
     [(''axios'', Some ''0.21.4'')]))
     \<lparr>path = ''/repo'', repo_type = ''npm'', packageJsonPath = Some ''/repo/package.json'',
      packageLockPath = None, goModPath = None\<rparr>
     [(''axios'', Some ''0.21.4'')]))
   = Some [(''axios'', \<lparr>type = ''dependencies'', from = Some ''^0.21.4'', to = ''^0.21.4''\<rparr>)]
   \<and> updatedDependencies (fst (updatePackages (snd (updatePackages
     \<lparr>manifests = [(''/repo/package.json'',
         Inr \<lparr>dependencies = Some [(''axios'', ''^0.21.1'')], devDependencies = None,
              optionalDependencies = None\<rparr>)],
      locks = [], gomods = [], readonly = [],
      npm_registry = (\<lambda>name. Fulfilled (Some ''0.21.4'')),
      npm_install_ok = (\<lambda>p. True), go_mod_tidy_ok = (\<lambda>p. True)\<rparr>
     \<lparr>path = ''/repo'', repo_type = ''npm'', packageJsonPath = Some ''/repo/package.json'',
      packageLockPath = None, goModPath = None\<rparr>
     [(''axios'', Some ''0.21.4'')]))
     \<lparr>path = ''/repo'', repo_type = ''npm'', packageJsonPath = Some ''/repo/package.json'',
      packageLockPath = None, goModPath = None\<rparr>
     [(''axios'', Some ''0.21.4'')])) \<noteq> Some []"
  by (simp add: updatePackages_def updatePackageJson_def rewrite_sections_def
        update_optional_section_def truthy_def caret_def template_def)

text \<open>
  Every entry that \<open>updatePackageJson\<close> records has \<open>from\<close> equal to \<open>to\<close>.
\<close>

lemma update_section_from_to:
  "(\<And>k e. map_of u k = Some e \<Longrightarrow> from e = Some (to e)) \<Longrightarrow>
   map_of (snd (update_section ty xs sec u)) k = Some e \<Longrightarrow> from e = Some (to e)"
proof (induction xs arbitrary: sec u)
  case Nil
  then show ?case by simp
next
  case (Cons x xs)
  obtain a v where x: "x = (a, v)" by (cases x)
  let ?u' = "if truthy (map_of sec a)
             then AList.update a \<lparr>type = ty, from = Some (caret v), to = caret v\<rparr> u else u"
  have inv: "\<And>k e. map_of ?u' k = Some e \<Longrightarrow> from e = Some (to e)"
    using Cons.prems(1) by (auto simp: update_conv' split: if_splits)
  from Cons.prems(2) have "map_of (snd (update_section ty xs (rewrite_entry a v sec) ?u')) k = Some e"
    by (simp only: x update_section_Cons)
  from Cons.IH [OF inv this] show ?case .
qed

lemma rewrite_sections_from_to:
  assumes "map_of (snd (rewrite_sections packageJson xs)) k = Some e"
  shows "from e = Some (to e)"
proof -
  have step: "\<And>ty sec u k e.
      (\<And>k e. map_of u k = Some e \<Longrightarrow> from e = Some (to e)) \<Longrightarrow>
      map_of (snd (update_optional_section ty xs sec u)) k = Some e \<Longrightarrow> from e = Some (to e)"
  proof -
    fix ty sec u k e
    assume inv: "\<And>k e. map_of u k = Some e \<Longrightarrow> from e = Some (to e)"
      and m: "map_of (snd (update_optional_section ty xs sec u)) k = Some e"
    show "from e = Some (to e)"
    proof (cases sec)
      case None
      with m inv show ?thesis by (simp add: update_optional_section_alt)
    next
      case (Some s)
      with m have "map_of (snd (update_section ty xs s u)) k = Some e"
        by (simp add: update_optional_section_alt)
      from update_section_from_to [OF inv this] show ?thesis .
    qed
  qed
  let ?u1 = "snd (update_optional_section ''dependencies'' xs (dependencies packageJson) [])"
  let ?u2 = "snd (update_optional_section ''devDependencies'' xs (devDependencies packageJson) ?u1)"
  let ?u3 = "snd (update_optional_section ''optionalDependencies'' xs
                    (optionalDependencies packageJson) ?u2)"
  have r: "snd (rewrite_sections packageJson xs) = ?u3"
    by (simp add: rewrite_sections_def split: prod.splits)
  have i1: "\<And>k e. map_of ?u1 k = Some e \<Longrightarrow> from e = Some (to e)"
    by (rule step [of "[]"]) simp_all
  have i2: "\<And>k e. map_of ?u2 k = Some e \<Longrightarrow> from e = Some (to e)"
    by (rule step [of ?u1]) (rule i1)
  have i3: "\<And>k e. map_of ?u3 k = Some e \<Longrightarrow> from e = Some (to e)"
    by (rule step [of ?u2]) (rule i2)
  from assms r i3 show ?thesis by simp
qed

text \<open>
  C3. With \<open>axios\<close> declared as \<open>^0.21.1\<close> and approved at \<open>0.21.4\<close>,
  \<open>updatePackageJson\<close> rewrites the section to \<open>^0.21.4\<close> and records \<open>from\<close> as
  \<open>^0.21.4\<close>, the value after the rewrite, not the value \<open>^0.21.1\<close> that the section
  held before: the source assigns the section and then reads \<open>from\<close> out of it.
\<close>

theorem updatePackageJson_from_is_new_value:
  "updatePackageJson
     \<lparr>manifests = [(''/repo/package.json'',
         Inr \<lparr>dependencies = Some [(''axios'', ''^0.21.1'')], devDependencies = None,
              optionalDependencies = None\<rparr>)],
      locks = [], gomods = [], readonly = [],
      npm_registry = (\<lambda>name. Fulfilled (Some ''0.21.4'')),
      npm_install_ok = (\<lambda>p. True), go_mod_tidy_ok = (\<lambda>p. True)\<rparr>
     (Some ''/repo/package.json'') [(''axios'', Some ''0.21.4'')]
   = Inr ((\<lparr>dependencies = Some [(''axios'', ''^0.21.4'')], devDependencies = None,
              optionalDependencies = None\<rparr>,
           [(''axios'', \<lparr>type = ''dependencies'', from = Some ''^0.21.4'', to = ''^0.21.4''\<rparr>)]),
     \<lparr>manifests = [(''/repo/package.json'',
         Inr \<lparr>dependencies = Some [(''axios'', ''^0.21.4'')], devDependencies = None,
              optionalDependencies = None\<rparr>)],
      locks = [], gomods = [], readonly = [],
      npm_registry = (\<lambda>name. Fulfilled (Some ''0.21.4'')),
      npm_install_ok = (\<lambda>p. True), go_mod_tidy_ok = (\<lambda>p. True)\<rparr>)"
  by (simp add: updatePackageJson_def rewrite_sections_def update_optional_section_def
        truthy_def caret_def template_def)

section \<open>Properties of go-analyzer.js\<close>

text \<open>
  C7. On a \<open>go.mod\<close> with a \<open>require\<close> block, \<open>parseGoMod\<close> returns a
  \<open>requires\<close> object with the key \<open>(\<close>, which is no module name: the expression for
  single-line requirements also matches the head of the block, taking \<open>(\<close> as the
  module and the first module of the block as its version.
\<close>

theorem parseGoMod_block_header_key:
  "parseGoMod (''module example.com/m'' @ [CHR 0x0A, CHR 0x0A] @ ''go 1.21'' @ [CHR 0x0A, CHR 0x0A]
               @ ''require ('' @ [CHR 0x0A, CHR 0x09] @ ''github.com/a/b v1.2.3'' @ [CHR 0x0A]
               @ '')'' @ [CHR 0x0A])
   = \<lparr>module = ''example.com/m'', go = ''1.21'',
      requires = [(''('', ''github.com/a/b''), (''github.com/a/b'', ''1.2.3'')]\<rparr>"
  by code_simp

text \<open>Single-line requirements alone give the declared modules.\<close>

lemma parseGoMod_single_line:
  "parseGoMod (''module example.com/m'' @ [CHR 0x0A, CHR 0x0A] @ ''go 1.21'' @ [CHR 0x0A, CHR 0x0A]
               @ ''require github.com/a/b v1.2.3'' @ [CHR 0x0A]
               @ ''require github.com/c/d v0.4.0'' @ [CHR 0x0A])
   = \<lparr>module = ''example.com/m'', go = ''1.21'',
      requires = [(''github.com/a/b'', ''1.2.3''), (''github.com/c/d'', ''0.4.0'')]\<rparr>"
  by code_simp

section \<open>Properties of reporter.js\<close>

lemma update_fresh: "k \<notin> fst ` set al \<Longrightarrow> AList.update k v al = al @ [(k, v)]"
  by (induction al) auto

lemma categorize_distinct:
  "distinct (map fst cr) \<Longrightarrow>
   fst ` set cr \<inter> (fst ` set a \<union> fst ` set m \<union> fst ` set c) = {} \<Longrightarrow>
   categorize cr (a, m, c) =
     (a @ map (\<lambda>(n, r). (n, package_update r)) (filter (\<lambda>(n, r). to_auto r) cr),
      m @ map (\<lambda>(n, r). (n, package_update r)) (filter (\<lambda>(n, r). to_manual r) cr),
      c @ map (\<lambda>(n, r). (n, \<lparr>pkg_version = installed r\<rparr>)) (filter (\<lambda>(n, r). to_current r) cr))"
proof (induction cr arbitrary: a m c)
  case Nil
  then show ?case by simp
next
  case (Cons e cr)
  obtain k r where e: "e = (k, r)" by (cases e)
  from Cons.prems e have fresh: "k \<notin> fst ` set a" "k \<notin> fst ` set m" "k \<notin> fst ` set c"
    by auto
  from Cons.prems e have d: "distinct (map fst cr)" and knot: "k \<notin> fst ` set cr"
    by auto
  from Cons.prems e have disj: "fst ` set cr \<inter> (fst ` set a \<union> fst ` set m \<union> fst ` set c) = {}"
    by auto
  consider (cur) "to_current r" | (auto) "to_auto r" | (man) "to_manual r" | (drop) "dropped r"
    by (auto simp: dropped_def)
  then show ?case
  proof cases
    case cur
    then have nots: "\<not> to_auto r" "\<not> to_manual r"
      by (auto simp: to_current_def to_auto_def to_manual_def)
    have disj': "fst ` set cr \<inter> (fst ` set a \<union> fst ` set m
                   \<union> fst ` set (c @ [(k, \<lparr>pkg_version = installed r\<rparr>)])) = {}"
      using disj knot by auto
    from cur have "categorize (e # cr) (a, m, c)
        = categorize cr (a, m, c @ [(k, \<lparr>pkg_version = installed r\<rparr>)])"
      by (simp add: e to_current_def update_fresh [OF fresh(3)])
    also note Cons.IH [OF d disj']
    finally show ?thesis using cur nots by (simp add: e)
  next
    case auto
    then have nots: "\<not> to_current r" "\<not> to_manual r"
      by (auto simp: to_current_def to_auto_def to_manual_def)
    have disj': "fst ` set cr \<inter> (fst ` set (a @ [(k, package_update r)]) \<union> fst ` set m
                   \<union> fst ` set c) = {}"
      using disj knot by auto
    from auto have "categorize (e # cr) (a, m, c)
        = categorize cr (a @ [(k, package_update r)], m, c)"
      by (simp add: e to_auto_def package_update_def update_fresh [OF fresh(1)])
    also note Cons.IH [OF d disj']
    finally show ?thesis using auto nots by (simp add: e)
  next
    case man
    then have nots: "\<not> to_current r" "\<not> to_auto r"
      by (auto simp: to_current_def to_auto_def to_manual_def)
    have disj': "fst ` set cr \<inter> (fst ` set a \<union> fst ` set (m @ [(k, package_update r)])
                   \<union> fst ` set c) = {}"
      using disj knot by auto
    from man have "categorize (e # cr) (a, m, c)
        = categorize cr (a, m @ [(k, package_update r)], c)"
      by (auto simp: e to_manual_def package_update_def update_fresh [OF fresh(2)])
    also note Cons.IH [OF d disj']
    finally show ?thesis using man nots by (simp add: e)
  next
    case drop
    then have nots: "\<not> to_current r" "\<not> to_auto r" "\<not> to_manual r"
      by (auto simp: dropped_def)
    then have "categorize (e # cr) (a, m, c) = categorize cr (a, m, c)"
      by (auto simp: e to_current_def to_auto_def to_manual_def)
    also note Cons.IH [OF d disj]
    finally show ?thesis using nots by (simp add: e)
  qed
qed

lemma map_of_bucket:
  "distinct (map fst cr) \<Longrightarrow> (k, r) \<in> set cr \<Longrightarrow>
   map_of (map (\<lambda>(n, r). (n, f r)) (filter (\<lambda>(n, r). P r) cr)) k
     = (if P r then Some (f r) else None)"
proof (induction cr)
  case Nil
  then show ?case by simp
next
  case (Cons e cr)
  obtain k' r' where e: "e = (k', r')" by (cases e)
  show ?case
  proof (cases "k' = k")
    case True
    with Cons.prems e have "r' = r" by (auto simp: rev_image_eqI)
    moreover from Cons.prems e True have "k \<notin> fst ` set cr" by auto
    then have "\<And>v. (k, v) \<notin> set cr" by force
    then have "map_of (map (\<lambda>(n, r). (n, f r)) (filter (\<lambda>(n, r). P r) cr)) k = None"
      by (auto simp: map_of_eq_None_iff)
    ultimately show ?thesis using e True by simp
  next
    case False
    with Cons.prems e have "(k, r) \<in> set cr" "distinct (map fst cr)" by auto
    from Cons.IH [OF this(2,1)] False e show ?thesis by simp
  qed
qed

lemma bucket_sizes:
  "length (filter (\<lambda>(n, r). to_auto r) cr) + length (filter (\<lambda>(n, r). to_manual r) cr)
     + length (filter (\<lambda>(n, r). to_current r) cr) + length (filter (\<lambda>(n, r). dropped r) cr)
   = length cr"
  by (induction cr) (auto simp: dropped_def to_auto_def to_manual_def to_current_def)

text \<open>
  C8. For comparison results with distinct package names in which \<open>canAutoUpdate\<close>
  holds only for \<open>patch\<close> (which the results that the program produces satisfy),
  \<open>generateRepositoryReport\<close> puts a \<open>current\<close> entry into the current bucket only,
  an entry with \<open>canAutoUpdate\<close> into the auto-updated bucket only, a \<open>minor\<close> or
  \<open>major\<close> entry into the manual bucket only and an \<open>unknown\<close> entry into none.
  \<open>packageCount\<close> counts all entries: the three bucket counts and the number of
  dropped entries, among them every \<open>unknown\<close> one, add up to it.
\<close>

theorem generateRepositoryReport_partition:
  assumes inv: "\<forall>(n, r) \<in> set comparisonResults. canAutoUpdate r \<longrightarrow> updateType r = ''patch''"
      and dist: "distinct (map fst comparisonResults)"
  shows "(\<forall>(packageName, r) \<in> set comparisonResults.
            (updateType r = ''current'' \<longrightarrow>
               map_of (currentPackages (generateRepositoryReport repo comparisonResults u)) packageName
                 = Some \<lparr>pkg_version = installed r\<rparr>
             \<and> map_of (autoUpdatePackages (generateRepositoryReport repo comparisonResults u)) packageName = None
             \<and> map_of (manualUpdatePackages (generateRepositoryReport repo comparisonResults u)) packageName = None)
          \<and> (canAutoUpdate r \<longrightarrow>
               map_of (autoUpdatePackages (generateRepositoryReport repo comparisonResults u)) packageName
                 = Some \<lparr>pkg_from = installed r, pkg_to = latest r, pkg_updateType = updateType r\<rparr>
             \<and> map_of (currentPackages (generateRepositoryReport repo comparisonResults u)) packageName = None
             \<and> map_of (manualUpdatePackages (generateRepositoryReport repo comparisonResults u)) packageName = None)
          \<and> (updateType r = ''minor'' \<or> updateType r = ''major'' \<longrightarrow>
               map_of (manualUpdatePackages (generateRepositoryReport repo comparisonResults u)) packageName
                 = Some \<lparr>pkg_from = installed r, pkg_to = latest r, pkg_updateType = updateType r\<rparr>
             \<and> map_of (currentPackages (generateRepositoryReport repo comparisonResults u)) packageName = None
             \<and> map_of (autoUpdatePackages (generateRepositoryReport repo comparisonResults u)) packageName = None)
          \<and> (updateType r = ''unknown'' \<longrightarrow>
               map_of (currentPackages (generateRepositoryReport repo comparisonResults u)) packageName = None
             \<and> map_of (autoUpdatePackages (generateRepositoryReport repo comparisonResults u)) packageName = None
             \<and> map_of (manualUpdatePackages (generateRepositoryReport repo comparisonResults u)) packageName = None))
       \<and> packageCount (generateRepositoryReport repo comparisonResults u) = length comparisonResults
       \<and> autoUpdateCount (generateRepositoryReport repo comparisonResults u)
           + manualUpdateCount (generateRepositoryReport repo comparisonResults u)
           + currentCount (generateRepositoryReport repo comparisonResults u)
           + length (filter (\<lambda>(n, r). dropped r) comparisonResults)
         = packageCount (generateRepositoryReport repo comparisonResults u)
       \<and> length (filter (\<lambda>(n, r). updateType r = ''unknown'') comparisonResults)
           \<le> length (filter (\<lambda>(n, r). dropped r) comparisonResults)"
proof -
  let ?rep = "generateRepositoryReport repo comparisonResults u"
  let ?A = "map (\<lambda>(n, r). (n, package_update r)) (filter (\<lambda>(n, r). to_auto r) comparisonResults)"
  let ?M = "map (\<lambda>(n, r). (n, package_update r)) (filter (\<lambda>(n, r). to_manual r) comparisonResults)"
  let ?C = "map (\<lambda>(n, r). (n, \<lparr>pkg_version = installed r\<rparr>)) (filter (\<lambda>(n, r). to_current r) comparisonResults)"
  have cat: "categorize comparisonResults ([], [], []) = (?A, ?M, ?C)"
    using categorize_distinct [OF dist, of "[]" "[]" "[]"] by simp
  have A: "autoUpdatePackages ?rep = ?A" and M: "manualUpdatePackages ?rep = ?M"
    and C: "currentPackages ?rep = ?C"
    by (simp_all add: generateRepositoryReport_def cat)
  have counts: "packageCount ?rep = length comparisonResults"
    "autoUpdateCount ?rep = length (filter (\<lambda>(n, r). to_auto r) comparisonResults)"
    "manualUpdateCount ?rep = length (filter (\<lambda>(n, r). to_manual r) comparisonResults)"
    "currentCount ?rep = length (filter (\<lambda>(n, r). to_current r) comparisonResults)"
    by (simp_all add: generateRepositoryReport_def cat)
  have entries: "\<And>k r. (k, r) \<in> set comparisonResults \<Longrightarrow>
       map_of (autoUpdatePackages ?rep) k = (if to_auto r then Some (package_update r) else None)
     \<and> map_of (manualUpdatePackages ?rep) k = (if to_manual r then Some (package_update r) else None)
     \<and> map_of (currentPackages ?rep) k
           = (if to_current r then Some \<lparr>pkg_version = installed r\<rparr> else None)"
    unfolding A M C
    using map_of_bucket [OF dist, where f = package_update and P = to_auto]
          map_of_bucket [OF dist, where f = package_update and P = to_manual]
          map_of_bucket [OF dist, where f = "\<lambda>r. \<lparr>pkg_version = installed r\<rparr>" and P = to_current]
    by simp
  have part1: "\<forall>(packageName, r) \<in> set comparisonResults.
            (updateType r = ''current'' \<longrightarrow>
               map_of (currentPackages ?rep) packageName = Some \<lparr>pkg_version = installed r\<rparr>
             \<and> map_of (autoUpdatePackages ?rep) packageName = None
             \<and> map_of (manualUpdatePackages ?rep) packageName = None)
          \<and> (canAutoUpdate r \<longrightarrow>
               map_of (autoUpdatePackages ?rep) packageName
                 = Some \<lparr>pkg_from = installed r, pkg_to = latest r, pkg_updateType = updateType r\<rparr>
             \<and> map_of (currentPackages ?rep) packageName = None
             \<and> map_of (manualUpdatePackages ?rep) packageName = None)
          \<and> (updateType r = ''minor'' \<or> updateType r = ''major'' \<longrightarrow>
               map_of (manualUpdatePackages ?rep) packageName
                 = Some \<lparr>pkg_from = installed r, pkg_to = latest r, pkg_updateType = updateType r\<rparr>
             \<and> map_of (currentPackages ?rep) packageName = None
             \<and> map_of (autoUpdatePackages ?rep) packageName = None)
          \<and> (updateType r = ''unknown'' \<longrightarrow>
               map_of (currentPackages ?rep) packageName = None
             \<and> map_of (autoUpdatePackages ?rep) packageName = None
             \<and> map_of (manualUpdatePackages ?rep) packageName = None)"
  proof (clarify, intro conjI impI)
    fix k r
    assume mem: "(k, r) \<in> set comparisonResults"
    from inv mem have i: "canAutoUpdate r \<longrightarrow> updateType r = ''patch''" by blast
    note E = entries [OF mem]
    {
      assume "updateType r = ''current''"
      with i have "to_current r" "\<not> to_auto r" "\<not> to_manual r"
        by (auto simp: to_current_def to_auto_def to_manual_def)
      with E show "map_of (currentPackages ?rep) k = Some \<lparr>pkg_version = installed r\<rparr>"
        "map_of (autoUpdatePackages ?rep) k = None" "map_of (manualUpdatePackages ?rep) k = None"
        by simp_all
    }
    {
      assume "canAutoUpdate r"
      with i have "\<not> to_current r" "to_auto r" "\<not> to_manual r"
        by (auto simp: to_current_def to_auto_def to_manual_def)
      with E show "map_of (autoUpdatePackages ?rep) k
                 = Some \<lparr>pkg_from = installed r, pkg_to = latest r, pkg_updateType = updateType r\<rparr>"
        "map_of (currentPackages ?rep) k = None" "map_of (manualUpdatePackages ?rep) k = None"
        by (simp_all add: package_update_def)
    }
    {
      assume "updateType r = ''minor'' \<or> updateType r = ''major''"
      with i have "\<not> to_current r" "\<not> to_auto r" "to_manual r"
        by (auto simp: to_current_def to_auto_def to_manual_def)
      with E show "map_of (manualUpdatePackages ?rep) k
                 = Some \<lparr>pkg_from = installed r, pkg_to = latest r, pkg_updateType = updateType r\<rparr>"
        "map_of (currentPackages ?rep) k = None" "map_of (autoUpdatePackages ?rep) k = None"
        by (simp_all add: package_update_def)
    }
    {
      assume "updateType r = ''unknown''"
      with i have "\<not> to_current r" "\<not> to_auto r" "\<not> to_manual r"
        by (auto simp: to_current_def to_auto_def to_manual_def)
      with E show "map_of (currentPackages ?rep) k = None"
        "map_of (autoUpdatePackages ?rep) k = None" "map_of (manualUpdatePackages ?rep) k = None"
        by simp_all
    }
  qed
  have part3: "autoUpdateCount ?rep + manualUpdateCount ?rep + currentCount ?rep
           + length (filter (\<lambda>(n, r). dropped r) comparisonResults) = packageCount ?rep"
    using bucket_sizes [of comparisonResults] by (simp add: counts)
  have "\<And>n r. (n, r) \<in> set comparisonResults \<Longrightarrow> updateType r = ''unknown'' \<Longrightarrow> dropped r"
    using inv by (auto simp: dropped_def to_current_def to_auto_def to_manual_def)
  then have "filter (\<lambda>(n, r). updateType r = ''unknown'') comparisonResults
      = filter (\<lambda>(n, r). updateType r = ''unknown'') (filter (\<lambda>(n, r). dropped r) comparisonResults)"
    by (auto intro!: filter_cong)
  then have part4: "length (filter (\<lambda>(n, r). updateType r = ''unknown'') comparisonResults)
           \<le> length (filter (\<lambda>(n, r). dropped r) comparisonResults)"
    by (metis length_filter_le)
  from part1 counts(1) part3 part4 show ?thesis by blast
qed

text \<open>The results of \<open>compareVersions\<close> meet the two conditions.\<close>

lemma compareVersions_loop_distinct:
  "distinct (map fst results) \<Longrightarrow> distinct (map fst (compareVersions_loop valid lv iv results))"
  by (induction iv arbitrary: results) (auto simp: distinct_update)

lemma compareVersions_results_invariant:
  "distinct (map fst (compareVersions valid iv lv))
   \<and> (\<forall>(n, r) \<in> set (compareVersions valid iv lv). canAutoUpdate r \<longrightarrow> updateType r = ''patch'')"
proof -
  have d: "distinct (map fst (compareVersions valid iv lv))"
    by (simp add: compareVersions_def compareVersions_loop_distinct)
  have "\<And>n r. (n, r) \<in> set (compareVersions valid iv lv) \<Longrightarrow>
          canAutoUpdate r \<longrightarrow> updateType r = ''patch''"
  proof -
    fix n r
    assume "(n, r) \<in> set (compareVersions valid iv lv)"
    with d have "map_of (compareVersions valid iv lv) n = Some r" by simp
    from compareVersions_entry [OF this] compareOne_canAutoUpdate show
      "canAutoUpdate r \<longrightarrow> updateType r = ''patch''" by blast
  qed
  with d show ?thesis by blast
qed

text \<open>
  An instance with one entry of each kind: the \<open>unknown\<close> entry is in no bucket and
  the bucket counts add up to three of the four packages.
\<close>

theorem generateRepositoryReport_partition_witness:
  "distinct (map fst [(''axios'', \<lparr>updateType = ''patch'', canAutoUpdate = True,
                   installed = ''0.21.1'', latest = Some ''0.21.4''\<rparr>),
       (''react'', \<lparr>updateType = ''major'', canAutoUpdate = False,
                   installed = ''17.0.2'', latest = Some ''18.2.0''\<rparr>),
       (''chalk'', \<lparr>updateType = ''current'', canAutoUpdate = False,
                   installed = ''4.1.2'', latest = Some ''4.1.2''\<rparr>),
       (''left-pad'', \<lparr>updateType = ''unknown'', canAutoUpdate = False,
                      installed = ''1.3.0'', latest = None\<rparr>)])
   \<and> map_of (currentPackages (generateRepositoryReport
      \<lparr>path = ''/repo'', repo_type = ''npm'', packageJsonPath = Some ''/repo/package.json'',
        packageLockPath = None, goModPath = None\<rparr>
      [(''axios'', \<lparr>updateType = ''patch'', canAutoUpdate = True,
                   installed = ''0.21.1'', latest = Some ''0.21.4''\<rparr>),
       (''react'', \<lparr>updateType = ''major'', canAutoUpdate = False,
                   installed = ''17.0.2'', latest = Some ''18.2.0''\<rparr>),
       (''chalk'', \<lparr>updateType = ''current'', canAutoUpdate = False,
                   installed = ''4.1.2'', latest = Some ''4.1.2''\<rparr>),
       (''left-pad'', \<lparr>updateType = ''unknown'', canAutoUpdate = False,
                      installed = ''1.3.0'', latest = None\<rparr>)] None)) ''left-pad'' = None
   \<and> map_of (autoUpdatePackages (generateRepositoryReport
      \<lparr>path = ''/repo'', repo_type = ''npm'', packageJsonPath = Some ''/repo/package.json'',
        packageLockPath = None, goModPath = None\<rparr>
      [(''axios'', \<lparr>updateType = ''patch'', canAutoUpdate = True,
                   installed = ''0.21.1'', latest = Some ''0.21.4''\<rparr>),
       (''react'', \<lparr>updateType = ''major'', canAutoUpdate = False,
                   installed = ''17.0.2'', latest = Some ''18.2.0''\<rparr>),
       (''chalk'', \<lparr>updateType = ''current'', canAutoUpdate = False,
                   installed = ''4.1.2'', latest = Some ''4.1.2''\<rparr>),
       (''left-pad'', \<lparr>updateType = ''unknown'', canAutoUpdate = False,
                      installed = ''1.3.0'', latest = None\<rparr>)] None)) ''left-pad'' = None
   \<and> map_of (manualUpdatePackages (generateRepositoryReport
      \<lparr>path = ''/repo'', repo_type = ''npm'', packageJsonPath = Some ''/repo/package.json'',
        packageLockPath = None, goModPath = None\<rparr>
      [(''axios'', \<lparr>updateType = ''patch'', canAutoUpdate = True,
                   installed = ''0.21.1'', latest = Some ''0.21.4''\<rparr>),
       (''react'', \<lparr>updateType = ''major'', canAutoUpdate = False,
                   installed = ''17.0.2'', latest = Some ''18.2.0''\<rparr>),
       (''chalk'', \<lparr>updateType = ''current'', canAutoUpdate = False,
                   installed = ''4.1.2'', latest = Some ''4.1.2''\<rparr>),
       (''left-pad'', \<lparr>updateType = ''unknown'', canAutoUpdate = False,
                      installed = ''1.3.0'', latest = None\<rparr>)] None)) ''left-pad'' = None
   \<and> packageCount (generateRepositoryReport
      \<lparr>path = ''/repo'', repo_type = ''npm'', packageJsonPath = Some ''/repo/package.json'',
        packageLockPath = None, goModPath = None\<rparr>
      [(''axios'', \<lparr>updateType = ''patch'', canAutoUpdate = True,
                   installed = ''0.21.1'', latest = Some ''0.21.4''\<rparr>),
       (''react'', \<lparr>updateType = ''major'', canAutoUpdate = False,
                   installed = ''17.0.2'', latest = Some ''18.2.0''\<rparr>),
       (''chalk'', \<lparr>updateType = ''current'', canAutoUpdate = False,
                   installed = ''4.1.2'', latest = Some ''4.1.2''\<rparr>),
       (''left-pad'', \<lparr>updateType = ''unknown'', canAutoUpdate = False,
                      installed = ''1.3.0'', latest = None\<rparr>)] None) = 4
   \<and> autoUpdateCount (generateRepositoryReport
      \<lparr>path = ''/repo'', repo_type = ''npm'', packageJsonPath = Some ''/repo/package.json'',
        packageLockPath = None, goModPath = None\<rparr>
      [(''axios'', \<lparr>updateType = ''patch'', canAutoUpdate = True,
                   installed = ''0.21.1'', latest = Some ''0.21.4''\<rparr>),
       (''react'', \<lparr>updateType = ''major'', canAutoUpdate = False,
                   installed = ''17.0.2'', latest = Some ''18.2.0''\<rparr>),
       (''chalk'', \<lparr>updateType = ''current'', canAutoUpdate = False,
                   installed = ''4.1.2'', latest = Some ''4.1.2''\<rparr>),
       (''left-pad'', \<lparr>updateType = ''unknown'', canAutoUpdate = False,
                      installed = ''1.3.0'', latest = None\<rparr>)] None)
       + manualUpdateCount (generateRepositoryReport
      \<lparr>path = ''/repo'', repo_type = ''npm'', packageJsonPath = Some ''/repo/package.json'',
        packageLockPath = None, goModPath = None\<rparr>
      [(''axios'', \<lparr>updateType = ''patch'', canAutoUpdate = True,
                   installed = ''0.21.1'', latest = Some ''0.21.4''\<rparr>),
       (''react'', \<lparr>updateType = ''major'', canAutoUpdate = False,
                   installed = ''17.0.2'', latest = Some ''18.2.0''\<rparr>),
       (''chalk'', \<lparr>updateType = ''current'', canAutoUpdate = False,
                   installed = ''4.1.2'', latest = Some ''4.1.2''\<rparr>),
       (''left-pad'', \<lparr>updateType = ''unknown'', canAutoUpdate = False,
                      installed = ''1.3.0'', latest = None\<rparr>)] None)
       + currentCount (generateRepositoryReport
      \<lparr>path = ''/repo'', repo_type = ''npm'', packageJsonPath = Some ''/repo/package.json'',
        packageLockPath = None, goModPath = None\<rparr>
      [(''axios'', \<lparr>updateType = ''patch'', canAutoUpdate = True,
                   installed = ''0.21.1'', latest = Some ''0.21.4''\<rparr>),
       (''react'', \<lparr>updateType = ''major'', canAutoUpdate = False,
                   installed = ''17.0.2'', latest = Some ''18.2.0''\<rparr>),
       (''chalk'', \<lparr>updateType = ''current'', canAutoUpdate = False,
                   installed = ''4.1.2'', latest = Some ''4.1.2''\<rparr>),
       (''left-pad'', \<lparr>updateType = ''unknown'', canAutoUpdate = False,
                      installed = ''1.3.0'', latest = None\<rparr>)] None) + 1
     = packageCount (generateRepositoryReport
      \<lparr>path = ''/repo'', repo_type = ''npm'', packageJsonPath = Some ''/repo/package.json'',
        packageLockPath = None, goModPath = None\<rparr>
      [(''axios'', \<lparr>updateType = ''patch'', canAutoUpdate = True,
                   installed = ''0.21.1'', latest = Some ''0.21.4''\<rparr>),
       (''react'', \<lparr>updateType = ''major'', canAutoUpdate = False,
                   installed = ''17.0.2'', latest = Some ''18.2.0''\<rparr>),
       (''chalk'', \<lparr>updateType = ''current'', canAutoUpdate = False,
                   installed = ''4.1.2'', latest = Some ''4.1.2''\<rparr>),
       (''left-pad'', \<lparr>updateType = ''unknown'', canAutoUpdate = False,
                      installed = ''1.3.0'', latest = None\<rparr>)] None)"
proof -
  let ?cr = "[(''axios'', \<lparr>updateType = ''patch'', canAutoUpdate = True,
                   installed = ''0.21.1'', latest = Some ''0.21.4''\<rparr>),
       (''react'', \<lparr>updateType = ''major'', canAutoUpdate = False,
                   installed = ''17.0.2'', latest = Some ''18.2.0''\<rparr>),
       (''chalk'', \<lparr>updateType = ''current'', canAutoUpdate = False,
                   installed = ''4.1.2'', latest = Some ''4.1.2''\<rparr>),
       (''left-pad'', \<lparr>updateType = ''unknown'', canAutoUpdate = False,
                      installed = ''1.3.0'', latest = None\<rparr>)]"
  let ?repo = "\<lparr>path = ''/repo'', repo_type = ''npm'', packageJsonPath = Some ''/repo/package.json'',
        packageLockPath = None, goModPath = None\<rparr>"
  have inv: "\<forall>(n, r) \<in> set ?cr. canAutoUpdate r \<longrightarrow> updateType r = ''patch''"
    by simp
  have d: "distinct (map fst ?cr)" by simp
  have mem: "(''left-pad'', \<lparr>updateType = ''unknown'', canAutoUpdate = False,
                      installed = ''1.3.0'', latest = None\<rparr>) \<in> set ?cr"
    by simp
  have dr: "length (filter (\<lambda>(n, r). dropped r) ?cr) = 1"
    by (simp add: dropped_def to_current_def to_auto_def to_manual_def)
  note T = generateRepositoryReport_partition [OF inv d, of ?repo None]
  from T mem have none:
    "map_of (currentPackages (generateRepositoryReport ?repo ?cr None)) ''left-pad'' = None"
    "map_of (autoUpdatePackages (generateRepositoryReport ?repo ?cr None)) ''left-pad'' = None"
    "map_of (manualUpdatePackages (generateRepositoryReport ?repo ?cr None)) ''left-pad'' = None"
    by fastforce+
  from T have pc: "packageCount (generateRepositoryReport ?repo ?cr None) = 4"
    by simp
  from T dr have sum: "autoUpdateCount (generateRepositoryReport ?repo ?cr None)
       + manualUpdateCount (generateRepositoryReport ?repo ?cr None)
       + currentCount (generateRepositoryReport ?repo ?cr None) + 1
     = packageCount (generateRepositoryReport ?repo ?cr None)"
    by simp
  from d none pc sum show ?thesis by (simp only: simp_thms)
qed

text \<open>
  C6 (as amended). With \<open>axios\<close> declared as \<open>^0.21.1\<close>, no lock and the registry
  answering \<open>0.21.4\<close>: the installed version is \<open>0.21.1\<close>, the classification is
  \<open>patch\<close> with \<open>canAutoUpdate\<close> true, the manifest entry is rewritten to
  \<open>^0.21.4\<close>, and the auto-updated bucket of the report holds \<open>axios\<close> with
  \<open>from\<close> 0.21.1, \<open>to\<close> 0.21.4 and \<open>updateType\<close> patch: the installed and the
  latest version, without caret.
\<close>

theorem scenario_axios:
  "compareVersions semver_valid (getInstalledVersions None [(''axios'', ''^0.21.1'')])
     [(''axios'', Some ''0.21.4'')]
   = [(''axios'', \<lparr>updateType = ''patch'', canAutoUpdate = True,
                  installed = ''0.21.1'', latest = Some ''0.21.4''\<rparr>)]
   \<and> map_sum id (\<lambda>(reports, w). (reports, manifests w)) (processNpmRepository semver_valid
     \<lparr>manifests = [(''/repo/package.json'',
         Inr \<lparr>dependencies = Some [(''axios'', ''^0.21.1'')], devDependencies = None,
              optionalDependencies = None\<rparr>)],
      locks = [], gomods = [], readonly = [],
      npm_registry = (\<lambda>name. Fulfilled (Some ''0.21.4'')),
      npm_install_ok = (\<lambda>p. True), go_mod_tidy_ok = (\<lambda>p. True)\<rparr>
     \<lparr>path = ''/repo'', repo_type = ''npm'', packageJsonPath = Some ''/repo/package.json'',
      packageLockPath = None, goModPath = None\<rparr> [])
   = Inr ([Report
         \<lparr>report_path = ''/repo'', report_name = ''repo'',
            report_type = ''npm'', packageCount = 1, autoUpdateCount = 1,
            manualUpdateCount = 0, currentCount = 0, autoUpdated = True,
            autoUpdatePackages =
              [(''axios'',
                \<lparr>pkg_from = ''0.21.1'', pkg_to = Some ''0.21.4'',
                   pkg_updateType = ''patch''\<rparr>)],
            manualUpdatePackages = [],
            currentPackages = [],
            updateResults =
              Some
               \<lparr>reported_packageLockUpdated = Some False,
                  reported_updatedDependencies =
                    Some
                     [(''axios'',
                       \<lparr>type = ''dependencies'', from = Some ''^0.21.4'',
                          to = ''^0.21.4''\<rparr>)],
                  reported_goModUpdated = None,
                  reported_goModTidied = None\<rparr>\<rparr>],
      [(''/repo/package.json'',
         Inr \<lparr>dependencies = Some [(''axios'', ''^0.21.4'')], devDependencies = None,
              optionalDependencies = None\<rparr>)])"
  by code_simp

text \<open>
  C6 as stated fails: the entry of the bucket is not
  \<open>{from: "^0.21.1", to: "^0.21.4", updateType: "patch"}\<close>.
\<close>

theorem scenario_axios_counterexample:
  "map_sum id (map (autoUpdatePackages \<circ> report_of) \<circ> fst) (processNpmRepository semver_valid
     \<lparr>manifests = [(''/repo/package.json'',
         Inr \<lparr>dependencies = Some [(''axios'', ''^0.21.1'')], devDependencies = None,
              optionalDependencies = None\<rparr>)],
      locks = [], gomods = [], readonly = [],
      npm_registry = (\<lambda>name. Fulfilled (Some ''0.21.4'')),
      npm_install_ok = (\<lambda>p. True), go_mod_tidy_ok = (\<lambda>p. True)\<rparr>
     \<lparr>path = ''/repo'', repo_type = ''npm'', packageJsonPath = Some ''/repo/package.json'',
      packageLockPath = None, goModPath = None\<rparr> [])
   = Inr [[(''axios'', \<lparr>pkg_from = ''0.21.1'', pkg_to = Some ''0.21.4'',
                       pkg_updateType = ''patch''\<rparr>)]]
   \<and> map_sum id (map (autoUpdatePackages \<circ> report_of) \<circ> fst) (processNpmRepository semver_valid
     \<lparr>manifests = [(''/repo/package.json'',
         Inr \<lparr>dependencies = Some [(''axios'', ''^0.21.1'')], devDependencies = None,
              optionalDependencies = None\<rparr>)],
      locks = [], gomods = [], readonly = [],
      npm_registry = (\<lambda>name. Fulfilled (Some ''0.21.4'')),
      npm_install_ok = (\<lambda>p. True), go_mod_tidy_ok = (\<lambda>p. True)\<rparr>
     \<lparr>path = ''/repo'', repo_type = ''npm'', packageJsonPath = Some ''/repo/package.json'',
      packageLockPath = None, goModPath = None\<rparr> [])
   \<noteq> Inr [[(''axios'', \<lparr>pkg_from = ''^0.21.1'', pkg_to = Some ''^0.21.4'',
                       pkg_updateType = ''patch''\<rparr>)]]"
  by code_simp

text \<open>
  A failure element has no counts: one of them among the reports turns every total into
  \<open>NaN\<close>. Without a failure element the totals are the sums.
\<close>

lemma total_NaN:
  "foldl (\<lambda>acc r. js_add acc (count_of field r)) NaN reports = NaN"
  by (induction reports) (simp_all add: js_add_def)

lemma total_with_failure:
  "Failure p n e \<in> set reports \<Longrightarrow>
   foldl (\<lambda>acc r. js_add acc (count_of field r)) t reports = NaN"
proof (induction reports arbitrary: t)
  case Nil
  then show ?case by simp
next
  case (Cons r reports)
  show ?case
  proof (cases "r = Failure p n e")
    case True
    then have "js_add t (count_of field r) = NaN"
      by (simp add: js_add_def count_of_def split: js_number.splits)
    then show ?thesis by (simp add: total_NaN)
  next
    case False
    with Cons.prems have "Failure p n e \<in> set reports" by simp
    from Cons.IH [OF this] show ?thesis by simp
  qed
qed

lemma total_without_failure:
  "foldl (\<lambda>acc r. js_add acc (count_of field r)) (Num a) (map Report rs)
     = Num (a + sum_list (map field rs))"
  by (induction rs arbitrary: a) (simp_all add: js_add_def count_of_def add.assoc)

lemma generateConsolidatedReport_with_failure:
  "Failure p n e \<in> set reports \<Longrightarrow>
   summary (generateConsolidatedReport now reports)
     = \<lparr>repositoryCount = length reports, totalPackages = NaN, totalAutoUpdated = NaN,
        totalManualUpdateNeeded = NaN, totalCurrent = NaN\<rparr>"
  by (simp add: generateConsolidatedReport_def total_with_failure)

text \<open>
  C2. Two npm repositories, the second with a \<open>package.json\<close> that does not parse: the
  consolidated report has \<open>repositoryCount\<close> 2 and the second element is the failure
  object, but every total of the summary is \<open>NaN\<close>, not the counts of the first
  repository (2 packages, 1 auto-updated, 1 manual, 0 current): the sums read the count
  properties of the failure object, which are \<open>undefined\<close>.
\<close>

theorem main_failed_repository_totals:
  "map_option (summary \<circ> fst) (main semver_valid semver_coerce ''2025-08-29T17:00:00.000Z''
     \<lparr>manifests = [(''/work/a/package.json'',
         Inr \<lparr>dependencies = Some [(''axios'', ''^0.21.1''), (''react'', ''17.0.2'')],
              devDependencies = None, optionalDependencies = None\<rparr>),
        (''/work/b/package.json'', Inl ''Unexpected end of JSON input'')],
      locks = [], gomods = [], readonly = [],
      npm_registry = (\<lambda>n. if n = ''axios'' then Fulfilled (Some ''0.21.4'')
                          else Fulfilled (Some ''18.2.0'')),
      npm_install_ok = (\<lambda>p. True), go_mod_tidy_ok = (\<lambda>p. True)\<rparr>
     [\<lparr>path = ''/work/a'', repo_type = ''npm'', packageJsonPath = Some ''/work/a/package.json'',
       packageLockPath = None, goModPath = None\<rparr>,
      \<lparr>path = ''/work/b'', repo_type = ''npm'', packageJsonPath = Some ''/work/b/package.json'',
       packageLockPath = None, goModPath = None\<rparr>])
   = Some \<lparr>repositoryCount = 2, totalPackages = NaN, totalAutoUpdated = NaN,
             totalManualUpdateNeeded = NaN, totalCurrent = NaN\<rparr>"
  by code_simp

text \<open>The elements of that consolidated report.\<close>

lemma main_failed_repository_entries:
  "map_option (repositories \<circ> fst) (main semver_valid semver_coerce ''2025-08-29T17:00:00.000Z''
     \<lparr>manifests = [(''/work/a/package.json'',
         Inr \<lparr>dependencies = Some [(''axios'', ''^0.21.1''), (''react'', ''17.0.2'')],
              devDependencies = None, optionalDependencies = None\<rparr>),
        (''/work/b/package.json'', Inl ''Unexpected end of JSON input'')],
      locks = [], gomods = [], readonly = [],
      npm_registry = (\<lambda>n. if n = ''axios'' then Fulfilled (Some ''0.21.4'')
                          else Fulfilled (Some ''18.2.0'')),
      npm_install_ok = (\<lambda>p. True), go_mod_tidy_ok = (\<lambda>p. True)\<rparr>
     [\<lparr>path = ''/work/a'', repo_type = ''npm'', packageJsonPath = Some ''/work/a/package.json'',
       packageLockPath = None, goModPath = None\<rparr>,
      \<lparr>path = ''/work/b'', repo_type = ''npm'', packageJsonPath = Some ''/work/b/package.json'',
       packageLockPath = None, goModPath = None\<rparr>])
   = Some [Report
         \<lparr>report_path = ''/work/a'', report_name = ''a'',
            report_type = ''npm'', packageCount = 2, autoUpdateCount = 1,
            manualUpdateCount = 1, currentCount = 0, autoUpdated = True,
            autoUpdatePackages =
              [(''axios'',
                \<lparr>pkg_from = ''0.21.1'', pkg_to = Some ''0.21.4'',
                   pkg_updateType = ''patch''\<rparr>)],
            manualUpdatePackages =
              [(''react'',
                \<lparr>pkg_from = ''17.0.2'', pkg_to = Some ''18.2.0'',
                   pkg_updateType = ''major''\<rparr>)],
            currentPackages = [],
            updateResults =
              Some
               \<lparr>reported_packageLockUpdated = Some False,
                  reported_updatedDependencies =
                    Some
                     [(''axios'',
                       \<lparr>type = ''dependencies'', from = Some ''^0.21.4'',
                          to = ''^0.21.4''\<rparr>)],
                  reported_goModUpdated = None,
                  reported_goModTidied = None\<rparr>\<rparr>,
        Failure ''/work/b'' ''b''
         ''Failed to read package.json at /work/b/package.json: Unexpected end of JSON input'']"
  by code_simp

end
